theory Spec2Isabelle
  imports Main
begin

section \<open>Python values\<close>

text \<open>
  The values the program handles are the ones \<^verbatim>\<open>json\<close> decoding produces (the
  responses of the music service, the cached token) and the dictionaries it builds
  itself.  A dictionary is an association list with string keys; \<open>map_of\<close> is the
  lookup, so the keys are meant to be distinct, as in a Python \<^verbatim>\<open>dict\<close>.  Floating
  point numbers do not occur in the fields the program reads and are left out; a
  \<open>string\<close> is a list of characters, one per code point for the ASCII texts used here.
\<close>

datatype pyval =
    PNone
  | PBool bool
  | PInt int
  | PStr string
  | PList "pyval list"
  | PDict "(string \<times> pyval) list"

type_synonym pydict = "(string \<times> pyval) list"

type_synonym row = "pyval list"

text \<open>
  Every exception the program can meet is an instance of \<^verbatim>\<open>Exception\<close>: the ones
  Python raises for a bad subscript, attribute, argument or iteration, and
  \<open>LibraryError\<close> for whatever an external library (spotipy, gspread, the file
  system, the network) raises.  Asynchronous signals such as
  \<^verbatim>\<open>KeyboardInterrupt\<close> are not part of the model.
\<close>

datatype pyerr =
    KeyError string
  | TypeError
  | AttributeError
  | ValueError
  | LibraryError string

text \<open>Sequencing of steps that may raise: the first exception ends the block.\<close>

definition then_do :: "pyerr + 'a \<Rightarrow> ('a \<Rightarrow> pyerr + 'b) \<Rightarrow> pyerr + 'b" where
  "then_do m f = (case m of Inl e \<Rightarrow> Inl e | Inr x \<Rightarrow> f x)"

text \<open>\<^verbatim>\<open>bool(v)\<close>, as \<^verbatim>\<open>if v:\<close> and \<^verbatim>\<open>if not v:\<close> use it.\<close>

fun truthy :: "pyval \<Rightarrow> bool" where
  "truthy PNone = False"
| "truthy (PBool b) = b"
| "truthy (PInt i) = (i \<noteq> 0)"
| "truthy (PStr s) = (s \<noteq> [])"
| "truthy (PList xs) = (xs \<noteq> [])"
| "truthy (PDict d) = (d \<noteq> [])"

text \<open>
  \<^verbatim>\<open>v[k]\<close> with a string key: a dictionary without the key raises
  \<^verbatim>\<open>KeyError\<close>, every other value raises \<^verbatim>\<open>TypeError\<close> (a list or a string wants
  an integer index, \<^verbatim>\<open>None\<close> and numbers are not subscriptable).
\<close>

fun subscript :: "pyval \<Rightarrow> string \<Rightarrow> pyerr + pyval" where
  "subscript (PDict d) k = (case map_of d k of Some v \<Rightarrow> Inr v | None \<Rightarrow> Inl (KeyError k))"
| "subscript _ k = Inl TypeError"

text \<open>\<^verbatim>\<open>v.get(k, default)\<close>: only a dictionary has the method.\<close>

fun py_get :: "pyval \<Rightarrow> string \<Rightarrow> pyval \<Rightarrow> pyerr + pyval" where
  "py_get (PDict d) k dflt = Inr (case map_of d k of Some v \<Rightarrow> v | None \<Rightarrow> dflt)"
| "py_get _ k dflt = Inl AttributeError"

text \<open>\<^verbatim>\<open>item.get(k, '')\<close> on a value known to be a dictionary.\<close>

definition dict_get :: "pydict \<Rightarrow> string \<Rightarrow> pyval" where
  "dict_get d k = (case map_of d k of Some v \<Rightarrow> v | None \<Rightarrow> PStr [])"

text \<open>
  \<^verbatim>\<open>for x in v\<close>: a list gives its elements, a dictionary its keys, a string its
  characters; nothing else is iterable.
\<close>

fun py_iter :: "pyval \<Rightarrow> pyerr + pyval list" where
  "py_iter (PList xs) = Inr xs"
| "py_iter (PDict d) = Inr (map (\<lambda>(k, v). PStr k) d)"
| "py_iter (PStr s) = Inr (map (\<lambda>c. PStr [c]) s)"
| "py_iter _ = Inl TypeError"

text \<open>
  \<^verbatim>\<open>v[:3]\<close>: the first three elements of a list or characters of a string.  A
  dictionary refuses a slice (with \<^verbatim>\<open>TypeError\<close> up to Python 3.11 and
  \<^verbatim>\<open>KeyError\<close> from 3.12 on; only that it raises matters here).
\<close>

fun first_three :: "pyval \<Rightarrow> pyerr + pyval" where
  "first_three (PList xs) = Inr (PList (take 3 xs))"
| "first_three (PStr s) = Inr (PStr (take 3 s))"
| "first_three _ = Inl TypeError"

text \<open>\<^verbatim>\<open>', '.join(xs)\<close> on a list: every element must be a string.\<close>

fun join_strs :: "pyval list \<Rightarrow> pyerr + string" where
  "join_strs [] = Inr []"
| "join_strs [PStr s] = Inr s"
| "join_strs (PStr s # x # xs) = then_do (join_strs (x # xs)) (\<lambda>r. Inr (s @ '', '' @ r))"
| "join_strs _ = Inl TypeError"

text \<open>\<^verbatim>\<open>', '.join(v)\<close> on any value: it iterates \<open>v\<close> first.\<close>

definition comma_join :: "pyval \<Rightarrow> pyerr + string" where
  "comma_join v = then_do (py_iter v) join_strs"

section \<open>What the program prints and calls\<close>

text \<open>
  One constructor per \<^verbatim>\<open>print\<close> statement of the sources; the exception or
  number an f-string interpolates is the constructor's argument.
\<close>

datatype message =
    Google_Sheets_error pyerr
  | Error_fetching_recently_played pyerr
  | Error_fetching_top_tracks pyerr
  | Error_fetching_top_artists pyerr
  | Found_top_artists nat
  | No_data_to_export
  | Error_adding_batch pyerr
  | Starting_authentication
  | Found_existing_token_file
  | Token_expired_refreshing
  | Authenticated_with_saved_token
  | Error_with_saved_token pyerr
  | Starting_fresh_authentication
  | Opening_browser
  | If_browser_does_not_open
  | Successfully_authenticated_as pyval
  | Email pyval
  | Authentication_failed pyerr
  | Troubleshooting_tips
  | Tip nat

text \<open>
  The trace of a run: what was printed, the pauses, and the calls that change the
  spreadsheet or the token file, in the order the program makes them.
\<close>

datatype event =
    Print message
  | Sleep nat
  | Append_rows "row list"
  | Refresh_access_token pyval
  | Write_token_file pyval
  | Remove_token_file

section \<open>Fetchers (main.py)\<close>

text \<open>
  The client \<^verbatim>\<open>sp\<close>: each endpoint answers with a decoded JSON value or raises.
\<close>

record spotify =
  current_user_recently_played :: "int \<Rightarrow> pyerr + pyval"
  current_user_top_tracks :: "int \<Rightarrow> string \<Rightarrow> pyerr + pyval"
  current_user_top_artists :: "int \<Rightarrow> string \<Rightarrow> pyerr + pyval"

text \<open>\<^verbatim>\<open>[artist['name'] for artist in xs]\<close>\<close>

fun names_of :: "pyval list \<Rightarrow> pyerr + pyval list" where
  "names_of [] = Inr []"
| "names_of (a # as) =
     then_do (subscript a ''name'') (\<lambda>n. then_do (names_of as) (\<lambda>ns. Inr (n # ns)))"

text \<open>\<^verbatim>\<open>', '.join([artist['name'] for artist in track['artists']])\<close>\<close>

definition artist_names :: "pyval \<Rightarrow> pyerr + string" where
  "artist_names track =
     then_do (subscript track ''artists'') (\<lambda>arts.
     then_do (py_iter arts) (\<lambda>as.
     then_do (names_of as) join_strs))"

text \<open>
  The played-at timestamp: \<open>reformat\<close> stands for
  \<^verbatim>\<open>datetime.strptime(s, '%Y-%m-%dT%H:%M:%S.%fZ').strftime('%Y-%m-%d %H:%M:%S')\<close>,
  which raises \<^verbatim>\<open>ValueError\<close> on a string of another shape; \<^verbatim>\<open>strptime\<close> itself
  raises \<^verbatim>\<open>TypeError\<close> on a value that is not a string.
\<close>

definition format_played_at :: "(string \<Rightarrow> pyerr + string) \<Rightarrow> pyval \<Rightarrow> pyerr + string" where
  "format_played_at reformat played_at =
     (if truthy played_at
      then (case played_at of PStr s \<Rightarrow> reformat s | _ \<Rightarrow> Inl TypeError)
      else Inr [])"

text \<open>\<^verbatim>\<open>item['context']['type'] if item['context'] else 'Unknown'\<close>\<close>

definition context_of :: "pyval \<Rightarrow> pyerr + pyval" where
  "context_of item =
     then_do (subscript item ''context'') (\<lambda>c.
       if truthy c then subscript c ''type'' else Inr (PStr ''Unknown''))"

text \<open>The body of the loop of \<^verbatim>\<open>get_recently_played\<close>: the record of one item.\<close>

definition recent_record :: "(string \<Rightarrow> pyerr + string) \<Rightarrow> pyval \<Rightarrow> pyerr + pydict" where
  "recent_record reformat item =
     then_do (subscript item ''track'') (\<lambda>track.
     then_do (py_get item ''played_at'' (PStr [])) (\<lambda>played_at.
     then_do (format_played_at reformat played_at) (\<lambda>played_at_formatted.
     then_do (artist_names track) (\<lambda>artists.
     then_do (subscript track ''name'') (\<lambda>name.
     then_do (subscript track ''album'') (\<lambda>album.
     then_do (subscript album ''name'') (\<lambda>album_name.
     then_do (subscript track ''duration_ms'') (\<lambda>duration_ms.
     then_do (subscript track ''popularity'') (\<lambda>popularity.
     then_do (context_of item) (\<lambda>ctx.
       Inr [(''type'', PStr ''recent''),
            (''track_name'', name),
            (''artists'', PStr artists),
            (''album'', album_name),
            (''duration_ms'', duration_ms),
            (''popularity'', popularity),
            (''played_at'', PStr played_at_formatted),
            (''context'', ctx)]))))))))))"

text \<open>The body of the loop of \<^verbatim>\<open>get_top_tracks\<close>.\<close>

definition top_track_record :: "string \<Rightarrow> pyval \<Rightarrow> pyerr + pydict" where
  "top_track_record time_range track =
     then_do (artist_names track) (\<lambda>artists.
     then_do (subscript track ''name'') (\<lambda>name.
     then_do (subscript track ''album'') (\<lambda>album.
     then_do (subscript album ''name'') (\<lambda>album_name.
     then_do (subscript track ''duration_ms'') (\<lambda>duration_ms.
     then_do (subscript track ''popularity'') (\<lambda>popularity.
       Inr [(''type'', PStr (''top_'' @ time_range)),
            (''track_name'', name),
            (''artists'', PStr artists),
            (''album'', album_name),
            (''duration_ms'', duration_ms),
            (''popularity'', popularity),
            (''played_at'', PStr []),
            (''context'', PStr ''top_tracks'')]))))))"

text \<open>The body of the loop of \<^verbatim>\<open>get_top_artists\<close>.\<close>

definition top_artist_record :: "string \<Rightarrow> pyval \<Rightarrow> pyerr + pydict" where
  "top_artist_record time_range artist =
     then_do (subscript artist ''name'') (\<lambda>name.
     then_do (subscript artist ''popularity'') (\<lambda>popularity.
     then_do (subscript artist ''genres'') (\<lambda>genres.
     then_do (first_three genres) (\<lambda>genres3.
     then_do (comma_join genres3) (\<lambda>joined.
       Inr [(''type'', PStr (''artist_'' @ time_range)),
            (''track_name'', PStr []),
            (''artists'', name),
            (''album'', PStr []),
            (''duration_ms'', PStr []),
            (''popularity'', popularity),
            (''played_at'', PStr []),
            (''context'', PStr ''top_artists''),
            (''genres'', PStr joined)])))))"

text \<open>
  The loop the three fetchers share: \<^verbatim>\<open>for item in items: data.append(record)\<close>,
  left by the first exception.
\<close>

fun collect :: "(pyval \<Rightarrow> pyerr + pydict) \<Rightarrow> pyval list \<Rightarrow> pydict list \<Rightarrow> pyerr + pydict list" where
  "collect f [] acc = Inr acc"
| "collect f (item # items) acc = then_do (f item) (\<lambda>r. collect f items (acc @ [r]))"

text \<open>The \<^verbatim>\<open>try\<close> blocks of the fetchers, and the fetchers with their handlers.\<close>

definition recently_played_body ::
  "spotify \<Rightarrow> (string \<Rightarrow> pyerr + string) \<Rightarrow> int \<Rightarrow> pyerr + pydict list" where
  "recently_played_body sp reformat limit =
     then_do (current_user_recently_played sp limit) (\<lambda>results.
     then_do (subscript results ''items'') (\<lambda>items.
     then_do (py_iter items) (\<lambda>xs. collect (recent_record reformat) xs [])))"

definition get_recently_played ::
  "spotify \<Rightarrow> (string \<Rightarrow> pyerr + string) \<Rightarrow> int \<Rightarrow> pydict list \<times> event list" where
  "get_recently_played sp reformat limit =
     (case recently_played_body sp reformat limit of
        Inr tracks_data \<Rightarrow> (tracks_data, [])
      | Inl e \<Rightarrow> ([], [Print (Error_fetching_recently_played e)]))"

definition top_tracks_body :: "spotify \<Rightarrow> int \<Rightarrow> string \<Rightarrow> pyerr + pydict list" where
  "top_tracks_body sp limit time_range =
     then_do (current_user_top_tracks sp limit time_range) (\<lambda>results.
     then_do (subscript results ''items'') (\<lambda>items.
     then_do (py_iter items) (\<lambda>xs. collect (top_track_record time_range) xs [])))"

definition get_top_tracks :: "spotify \<Rightarrow> int \<Rightarrow> string \<Rightarrow> pydict list \<times> event list" where
  "get_top_tracks sp limit time_range =
     (case top_tracks_body sp limit time_range of
        Inr tracks_data \<Rightarrow> (tracks_data, [])
      | Inl e \<Rightarrow> ([], [Print (Error_fetching_top_tracks e)]))"

definition top_artists_body :: "spotify \<Rightarrow> int \<Rightarrow> string \<Rightarrow> pyerr + pydict list" where
  "top_artists_body sp limit time_range =
     then_do (current_user_top_artists sp limit time_range) (\<lambda>results.
     then_do (subscript results ''items'') (\<lambda>items.
     then_do (py_iter items) (\<lambda>xs. collect (top_artist_record time_range) xs [])))"

definition get_top_artists :: "spotify \<Rightarrow> int \<Rightarrow> string \<Rightarrow> pydict list \<times> event list" where
  "get_top_artists sp limit time_range =
     (case top_artists_body sp limit time_range of
        Inr artists_data \<Rightarrow> (artists_data, [Print (Found_top_artists (length artists_data))])
      | Inl e \<Rightarrow> ([], [Print (Error_fetching_top_artists e)]))"

section \<open>The sheet writer (main.py)\<close>

text \<open>
  The world the writer acts on is a state \<open>'w\<close> (the remote spreadsheet, the
  clock); the record holds the operations the program calls on it.  \<open>connect\<close>
  stands for the four calls that lead to the worksheet handle (credentials,
  \<^verbatim>\<open>authorize\<close>, \<^verbatim>\<open>open\<close>, \<^verbatim>\<open>sheet1\<close>), \<open>clock\<close> for
  \<^verbatim>\<open>datetime.now().strftime('%Y-%m-%d %H:%M:%S')\<close>.  \<^verbatim>\<open>append_rows\<close> returns the
  exception it raised, if any, and the state it left.
\<close>

record 'w sheets =
  clock :: "'w \<Rightarrow> string"
  sleep :: "nat \<Rightarrow> 'w \<Rightarrow> 'w"
  connect :: "'w \<Rightarrow> pyerr option"
  ws_get :: "'w \<Rightarrow> string \<Rightarrow> pyerr + pyval"
  ws_append_rows :: "'w \<Rightarrow> row list \<Rightarrow> pyerr option \<times> 'w"

definition headers :: "row list" where
  "headers =
     [[PStr ''Timestamp'', PStr ''Type'', PStr ''Track Name'', PStr ''Artist(s)'',
       PStr ''Album'', PStr ''Duration (ms)'', PStr ''Popularity'', PStr ''Played At'',
       PStr ''Context'']]"

text \<open>
  \<^verbatim>\<open>get_google_sheet\<close> returns the worksheet handle or \<^verbatim>\<open>None\<close>; the first
  component says which.
\<close>

definition get_google_sheet :: "'w sheets \<Rightarrow> 'w \<Rightarrow> bool \<times> 'w \<times> event list" where
  "get_google_sheet api w =
     (case connect api w of
        Some e \<Rightarrow> (False, w, [Print (Google_Sheets_error e)])
      | None \<Rightarrow>
          (case ws_get api w ''A1'' of
             Inl e \<Rightarrow> (False, w, [Print (Google_Sheets_error e)])
           | Inr a1 \<Rightarrow>
               if \<not> truthy a1
               then (case ws_append_rows api w headers of
                       (Some e, w') \<Rightarrow>
                         (False, w', [Append_rows headers, Print (Google_Sheets_error e)])
                     | (None, w') \<Rightarrow> (True, w', [Append_rows headers]))
               else (True, w, [])))"

definition make_row :: "string \<Rightarrow> pydict \<Rightarrow> row" where
  "make_row timestamp item =
     [PStr timestamp,
      dict_get item ''type'',
      dict_get item ''track_name'',
      dict_get item ''artists'',
      dict_get item ''album'',
      dict_get item ''duration_ms'',
      dict_get item ''popularity'',
      dict_get item ''played_at'',
      dict_get item ''context'']"

fun build_rows :: "string \<Rightarrow> pydict list \<Rightarrow> row list \<Rightarrow> row list" where
  "build_rows timestamp [] rows = rows"
| "build_rows timestamp (item # items) rows =
     build_rows timestamp items (rows @ [make_row timestamp item])"

definition batch_size :: nat where
  "batch_size = 50"

text \<open>
  \<^verbatim>\<open>for i in range(0, len(rows), batch_size)\<close>: the loop at index \<open>i\<close>, with the
  state of the world and the trace so far.  \<^verbatim>\<open>rows[i:i + batch_size]\<close> is
  \<open>take batch_size (drop i rows)\<close>.
\<close>

function append_batches ::
  "'w sheets \<Rightarrow> row list \<Rightarrow> nat \<Rightarrow> 'w \<Rightarrow> event list \<Rightarrow> 'w \<times> event list" where
  "append_batches api rows i w tr =
     (if i < length rows
      then (let batch = take batch_size (drop i rows) in
            case ws_append_rows api w batch of
              (None, w') \<Rightarrow>
                append_batches api rows (i + batch_size) (sleep api 1 w')
                  (tr @ [Append_rows batch, Sleep 1])
            | (Some e, w') \<Rightarrow>
                append_batches api rows (i + batch_size) w'
                  (tr @ [Append_rows batch, Print (Error_adding_batch e)]))
      else (w, tr))"
  by pat_completeness auto
termination
  by (relation "measure (\<lambda>(api, rows, i, w, tr). length rows - i)")
     (auto simp: batch_size_def)

definition export_to_sheets :: "'w sheets \<Rightarrow> 'w \<Rightarrow> pydict list \<Rightarrow> 'w \<times> event list" where
  "export_to_sheets api w data =
     (if data = [] then (w, [Print No_data_to_export])
      else (let timestamp = clock api w;
                rows = build_rows timestamp data []
            in append_batches api rows 0 w []))"

section \<open>Authentication (spotify\_auth.py)\<close>

text \<open>
  The world of \<^verbatim>\<open>authenticate_spotify\<close>: the token file, the clock and the
  authorisation server behind one state \<open>'w\<close>.  \<open>load_token\<close> is
  \<^verbatim>\<open>open\<close> and \<^verbatim>\<open>json.load\<close>, \<open>write_token\<close> is \<^verbatim>\<open>open\<close> and
  \<^verbatim>\<open>json.dump\<close>, \<open>current_user\<close> the request of the fresh flow.  Building the
  \<^verbatim>\<open>SpotifyOAuth\<close> and \<^verbatim>\<open>Spotify\<close> objects only stores their arguments.
\<close>

record 'w auth =
  token_file_exists :: "'w \<Rightarrow> bool"
  load_token :: "'w \<Rightarrow> pyerr + pyval"
  is_token_expired :: "'w \<Rightarrow> pyval \<Rightarrow> pyerr + bool"
  refresh_access_token :: "'w \<Rightarrow> pyval \<Rightarrow> (pyerr + pyval) \<times> 'w"
  write_token :: "'w \<Rightarrow> pyval \<Rightarrow> pyerr option \<times> 'w"
  remove_token :: "'w \<Rightarrow> 'w"
  current_user :: "'w \<Rightarrow> (pyerr + pyval) \<times> 'w"

datatype client =
    Client_with_token pyval
  | Client_with_auth_manager

text \<open>\<^verbatim>\<open>spotipy.Spotify(auth=token_info['access_token'])\<close> and the line after it.\<close>

definition client_of_token ::
  "pyval \<Rightarrow> 'w \<Rightarrow> event list \<Rightarrow> (pyerr + client) \<times> 'w \<times> event list" where
  "client_of_token token_info w tr =
     (case subscript token_info ''access_token'' of
        Inl e \<Rightarrow> (Inl e, w, tr)
      | Inr access \<Rightarrow>
          (Inr (Client_with_token access), w, tr @ [Print Authenticated_with_saved_token]))"

text \<open>The first \<^verbatim>\<open>try\<close> block: the client, or the exception that left the block.\<close>

definition saved_token_auth :: "'w auth \<Rightarrow> 'w \<Rightarrow> (pyerr + client) \<times> 'w \<times> event list" where
  "saved_token_auth api w =
     (case load_token api w of
        Inl e \<Rightarrow> (Inl e, w, [])
      | Inr token_info \<Rightarrow>
          (case is_token_expired api w token_info of
             Inl e \<Rightarrow> (Inl e, w, [])
           | Inr expired \<Rightarrow>
               if expired
               then (case subscript token_info ''refresh_token'' of
                       Inl e \<Rightarrow> (Inl e, w, [Print Token_expired_refreshing])
                     | Inr rt \<Rightarrow>
                         (case refresh_access_token api w rt of
                            (Inl e, w1) \<Rightarrow>
                              (Inl e, w1, [Print Token_expired_refreshing, Refresh_access_token rt])
                          | (Inr new_info, w1) \<Rightarrow>
                              (case write_token api w1 new_info of
                                 (Some e, w2) \<Rightarrow>
                                   (Inl e, w2,
                                    [Print Token_expired_refreshing, Refresh_access_token rt,
                                     Write_token_file new_info])
                               | (None, w2) \<Rightarrow>
                                   client_of_token new_info w2
                                    [Print Token_expired_refreshing, Refresh_access_token rt,
                                     Write_token_file new_info])))
               else client_of_token token_info w []))"

text \<open>The second \<^verbatim>\<open>try\<close> block: authentication with the authorisation-code flow.\<close>

definition fresh_auth :: "'w auth \<Rightarrow> 'w \<Rightarrow> client option \<times> 'w \<times> event list" where
  "fresh_auth api w =
     (let (r, w1) = current_user api w;
          intro = [Print Opening_browser, Print If_browser_does_not_open];
          failed = (\<lambda>e. [Print (Authentication_failed e), Print Troubleshooting_tips,
                          Print (Tip 1), Print (Tip 2), Print (Tip 3)])
      in case r of
           Inl e \<Rightarrow> (None, w1, intro @ failed e)
         | Inr user \<Rightarrow>
             (case subscript user ''display_name'' of
                Inl e \<Rightarrow> (None, w1, intro @ failed e)
              | Inr display_name \<Rightarrow>
                  (case subscript user ''email'' of
                     Inl e \<Rightarrow>
                       (None, w1,
                        intro @ [Print (Successfully_authenticated_as display_name)] @ failed e)
                   | Inr email \<Rightarrow>
                       (Some Client_with_auth_manager, w1,
                        intro @ [Print (Successfully_authenticated_as display_name),
                                 Print (Email email)]))))"

definition authenticate_spotify :: "'w auth \<Rightarrow> 'w \<Rightarrow> client option \<times> 'w \<times> event list" where
  "authenticate_spotify api w =
     (if token_file_exists api w
      then (case saved_token_auth api w of
              (Inr sp, w1, tr) \<Rightarrow>
                (Some sp, w1, [Print Starting_authentication, Print Found_existing_token_file] @ tr)
            | (Inl e, w1, tr) \<Rightarrow>
                (let (r, w2, tr2) = fresh_auth api (remove_token api w1)
                 in (r, w2,
                     [Print Starting_authentication, Print Found_existing_token_file] @ tr @
                     [Print (Error_with_saved_token e), Print Starting_fresh_authentication,
                      Remove_token_file] @ tr2)))
      else (let (r, w1, tr) = fresh_auth api w
            in (r, w1, [Print Starting_authentication] @ tr)))"

section \<open>Reading a trace\<close>

text \<open>The batches handed to \<^verbatim>\<open>append_rows\<close>, in the order of the calls.\<close>

fun appended :: "event list \<Rightarrow> row list list" where
  "appended [] = []"
| "appended (Append_rows batch # es) = batch # appended es"
| "appended (_ # es) = appended es"

text \<open>The arguments of the calls of \<^verbatim>\<open>refresh_access_token\<close>.\<close>

fun refresh_calls :: "event list \<Rightarrow> pyval list" where
  "refresh_calls [] = []"
| "refresh_calls (Refresh_access_token rt # es) = rt # refresh_calls es"
| "refresh_calls (_ # es) = refresh_calls es"

text \<open>The tokens written to the token file.\<close>

fun token_writes :: "event list \<Rightarrow> pyval list" where
  "token_writes [] = []"
| "token_writes (Write_token_file t # es) = t # token_writes es"
| "token_writes (_ # es) = token_writes es"

text \<open>The exceptions reported for a batch.\<close>

fun batch_errors :: "event list \<Rightarrow> pyerr list" where
  "batch_errors [] = []"
| "batch_errors (Print (Error_adding_batch e) # es) = e # batch_errors es"
| "batch_errors (_ # es) = batch_errors es"

section \<open>Batches and outcomes\<close>

text \<open>
  The partition of a list into consecutive batches of \<open>batch_size\<close> elements, the
  last one possibly shorter.
\<close>

function batches_of :: "'a list \<Rightarrow> 'a list list" where
  "batches_of xs =
     (if xs = [] then [] else take batch_size xs # batches_of (drop batch_size xs))"
  by pat_completeness auto
termination
  by (relation "measure length") (auto simp: batch_size_def)

text \<open>
  What the service answers when the batches are handed to it one after the other,
  each exactly once, with the pause after every success: \<open>None\<close> for a batch
  that was appended, the exception for one that failed.
\<close>

fun outcomes :: "'w sheets \<Rightarrow> 'w \<Rightarrow> row list list \<Rightarrow> pyerr option list" where
  "outcomes api w [] = []"
| "outcomes api w (b # bs) =
     (case ws_append_rows api w b of
        (None, w') \<Rightarrow> None # outcomes api (sleep api 1 w') bs
      | (Some e, w') \<Rightarrow> Some e # outcomes api w' bs)"

fun failures :: "pyerr option list \<Rightarrow> pyerr list" where
  "failures [] = []"
| "failures (None # os) = failures os"
| "failures (Some e # os) = e # failures os"

section \<open>The shape of the responses and the field mapping\<close>

text \<open>
  Total readers for values of a known shape: \<open>field\<close> is \<^verbatim>\<open>v[k]\<close> where the key
  is there.
\<close>

definition field :: "pyval \<Rightarrow> string \<Rightarrow> pyval" where
  "field v k = (case subscript v k of Inr x \<Rightarrow> x | Inl e \<Rightarrow> PNone)"

definition has_key :: "pyval \<Rightarrow> string \<Rightarrow> bool" where
  "has_key v k = (case subscript v k of Inr x \<Rightarrow> True | Inl e \<Rightarrow> False)"

fun str_of :: "pyval \<Rightarrow> string" where
  "str_of (PStr s) = s"
| "str_of _ = []"

fun list_of :: "pyval \<Rightarrow> pyval list" where
  "list_of (PList xs) = xs"
| "list_of _ = []"

fun is_str :: "pyval \<Rightarrow> bool" where
  "is_str (PStr s) = True"
| "is_str _ = False"

text \<open>The strings separated by a comma and a space.\<close>

fun comma_sep :: "string list \<Rightarrow> string" where
  "comma_sep [] = []"
| "comma_sep [s] = s"
| "comma_sep (s # t # ts) = s @ '', '' @ comma_sep (t # ts)"

text \<open>
  A track object of the service: a name, a list of artist objects with string
  names, an album with a name, a duration and a popularity.
\<close>

definition wf_track :: "pyval \<Rightarrow> bool" where
  "wf_track t \<longleftrightarrow>
     has_key t ''name'' \<and>
     (case subscript t ''artists'' of
        Inr (PList as) \<Rightarrow> list_all (\<lambda>a. is_str (field a ''name'') \<and> has_key a ''name'') as
      | _ \<Rightarrow> False) \<and>
     has_key (field t ''album'') ''name'' \<and>
     has_key t ''duration_ms'' \<and>
     has_key t ''popularity''"

text \<open>
  A play-history object: a track, a context that is null or has a type, and a
  time of play that, if it is there, is a string.
\<close>

definition wf_play_item :: "pyval \<Rightarrow> bool" where
  "wf_play_item item \<longleftrightarrow>
     wf_track (field item ''track'') \<and>
     has_key item ''context'' \<and>
     (truthy (field item ''context'') \<longrightarrow> has_key (field item ''context'') ''type'') \<and>
     (has_key item ''played_at'' \<longrightarrow> is_str (field item ''played_at''))"

text \<open>
  What the program asks of the time of play beyond the shape of the response: the
  string is empty (or absent), or \<^verbatim>\<open>strptime\<close> accepts it for the format of the
  program, \<^verbatim>\<open>'%Y-%m-%dT%H:%M:%S.%fZ'\<close>, which wants fractional seconds.
\<close>

definition played_at_parses :: "(string \<Rightarrow> pyerr + string) \<Rightarrow> pyval \<Rightarrow> bool" where
  "played_at_parses reformat item \<longleftrightarrow>
     str_of (field item ''played_at'') = [] \<or>
     (case reformat (str_of (field item ''played_at'')) of Inr x \<Rightarrow> True | Inl e \<Rightarrow> False)"

text \<open>An artist object: a name, a popularity and a list of genre strings.\<close>

definition wf_artist :: "pyval \<Rightarrow> bool" where
  "wf_artist a \<longleftrightarrow>
     has_key a ''name'' \<and>
     has_key a ''popularity'' \<and>
     (case subscript a ''genres'' of
        Inr (PList gs) \<Rightarrow> list_all is_str gs
      | _ \<Rightarrow> False)"

text \<open>A response: an object whose \<^verbatim>\<open>items\<close> is a list of well-formed items.\<close>

definition wf_response :: "(pyval \<Rightarrow> bool) \<Rightarrow> pyval \<Rightarrow> bool" where
  "wf_response wf_item results \<longleftrightarrow>
     (case subscript results ''items'' of
        Inr (PList xs) \<Rightarrow> list_all wf_item xs
      | _ \<Rightarrow> False)"

definition items_of :: "pyval \<Rightarrow> pyval list" where
  "items_of results = list_of (field results ''items'')"

text \<open>
  The mapping of a track to a record, in the words of the specification: track
  name from \<^verbatim>\<open>track['name']\<close>, artists comma-joined from \<^verbatim>\<open>track['artists']\<close>,
  album from \<^verbatim>\<open>track['album']['name']\<close>, duration from \<^verbatim>\<open>track['duration_ms']\<close>,
  popularity from the popularity.
\<close>

definition track_mapping :: "pyval \<Rightarrow> pydict \<Rightarrow> bool" where
  "track_mapping track r \<longleftrightarrow>
     map_of r ''track_name'' = Some (field track ''name'') \<and>
     map_of r ''artists'' =
       Some (PStr (comma_sep (map (\<lambda>a. str_of (field a ''name''))
                                   (list_of (field track ''artists''))))) \<and>
     map_of r ''album'' = Some (field (field track ''album'') ''name'') \<and>
     map_of r ''duration_ms'' = Some (field track ''duration_ms'') \<and>
     map_of r ''popularity'' = Some (field track ''popularity'')"

text \<open>
  The mapping of an artist to a record: the name goes to the artists field, and
  there is no track, album or duration.
\<close>

definition artist_mapping :: "pyval \<Rightarrow> pydict \<Rightarrow> bool" where
  "artist_mapping artist r \<longleftrightarrow>
     map_of r ''track_name'' = Some (PStr []) \<and>
     map_of r ''artists'' = Some (field artist ''name'') \<and>
     map_of r ''album'' = Some (PStr []) \<and>
     map_of r ''duration_ms'' = Some (PStr []) \<and>
     map_of r ''popularity'' = Some (field artist ''popularity'') \<and>
     map_of r ''genres'' =
       Some (PStr (comma_sep (map str_of (take 3 (list_of (field artist ''genres''))))))"

section \<open>A spreadsheet and a token store to run the program on\<close>

text \<open>
  A spreadsheet as the list of its rows, with a clock and a script of the
  outcomes of the coming \<^verbatim>\<open>append_rows\<close> calls (past the script every call
  succeeds).  A failed call writes nothing.  \<open>sim_sheets\<close> is the spreadsheet
  behind gspread 5.
\<close>

record sheet_world =
  sheet_rows :: "row list"
  sheet_time :: nat
  sheet_faults :: "pyerr option list"

text \<open>
  \<^verbatim>\<open>worksheet.get('A1')\<close> answers with the value range of the first cell, and
  the releases of gspread differ on a cell without a value: up to 5.x the range is
  the empty list \<^verbatim>\<open>[]\<close>, from 6.0 on it is one empty row, \<^verbatim>\<open>[[]]\<close>.  The sources
  pin no release, so both answers are modelled.
\<close>

definition first_cell :: "row list \<Rightarrow> pyval list" where
  "first_cell rows =
     (case rows of
        [] \<Rightarrow> []
      | r # rs \<Rightarrow> (case r of [] \<Rightarrow> [] | c # cs \<Rightarrow> if truthy c then [c] else []))"

definition a1_range_v5 :: "row list \<Rightarrow> pyval" where
  "a1_range_v5 rows = (if first_cell rows = [] then PList [] else PList [PList (first_cell rows)])"

definition a1_range_v6 :: "row list \<Rightarrow> pyval" where
  "a1_range_v6 rows = PList [PList (first_cell rows)]"

definition stamp :: "nat \<Rightarrow> string" where
  "stamp n = ''2024-01-01 00:00:'' @ [''0123456789'' ! (n div 10 mod 10), ''0123456789'' ! (n mod 10)]"

definition sim_append_rows :: "sheet_world \<Rightarrow> row list \<Rightarrow> pyerr option \<times> sheet_world" where
  "sim_append_rows w rows =
     (case sheet_faults w of
        [] \<Rightarrow> (None, w\<lparr>sheet_rows := sheet_rows w @ rows\<rparr>)
      | None # fs \<Rightarrow> (None, w\<lparr>sheet_rows := sheet_rows w @ rows, sheet_faults := fs\<rparr>)
      | Some e # fs \<Rightarrow> (Some e, w\<lparr>sheet_faults := fs\<rparr>))"

definition sim_sheets :: "sheet_world sheets" where
  "sim_sheets =
     \<lparr>clock = (\<lambda>w. stamp (sheet_time w)),
      sleep = (\<lambda>n w. w\<lparr>sheet_time := sheet_time w + n\<rparr>),
      connect = (\<lambda>w. None),
      ws_get = (\<lambda>w range. if range = ''A1'' then Inr (a1_range_v5 (sheet_rows w))
                            else Inl (LibraryError ''range'')),
      ws_append_rows = sim_append_rows\<rparr>"

text \<open>The same spreadsheet behind gspread 6.\<close>

definition sim_sheets_v6 :: "sheet_world sheets" where
  "sim_sheets_v6 =
     sim_sheets\<lparr>ws_get := (\<lambda>w range. if range = ''A1'' then Inr (a1_range_v6 (sheet_rows w))
                                      else Inl (LibraryError ''range''))\<rparr>"

text \<open>
  A token store: the decoded content of the token file, if the file exists, and
  the time in seconds.  \<open>is_token_expired\<close> is spotipy's
  \<^verbatim>\<open>token_info['expires_at'] - now < 60\<close>; a refresh answers with a new token that
  keeps the refresh token.
\<close>

record auth_world =
  token_file :: "pyval option"
  auth_time :: int

definition sim_is_token_expired :: "auth_world \<Rightarrow> pyval \<Rightarrow> pyerr + bool" where
  "sim_is_token_expired w token_info =
     (case subscript token_info ''expires_at'' of
        Inl e \<Rightarrow> Inl e
      | Inr (PInt x) \<Rightarrow> Inr (x - auth_time w < 60)
      | Inr _ \<Rightarrow> Inl TypeError)"

definition sim_auth :: "auth_world auth" where
  "sim_auth =
     \<lparr>token_file_exists = (\<lambda>w. token_file w \<noteq> None),
      load_token = (\<lambda>w. case token_file w of
                           Some t \<Rightarrow> Inr t
                         | None \<Rightarrow> Inl (LibraryError ''FileNotFoundError'')),
      is_token_expired = sim_is_token_expired,
      refresh_access_token = (\<lambda>w rt.
        (Inr (PDict [(''access_token'', PStr ''fresh''), (''refresh_token'', rt),
                     (''expires_at'', PInt (auth_time w + 3600))]), w)),
      write_token = (\<lambda>w t. (None, w\<lparr>token_file := Some t\<rparr>)),
      remove_token = (\<lambda>w. w\<lparr>token_file := None\<rparr>),
      current_user = (\<lambda>w.
        (Inr (PDict [(''display_name'', PStr ''user''), (''email'', PStr ''user@example.org'')]),
         w))\<rparr>"

section \<open>Columns and repeated runs\<close>

text \<open>
  The columns of the sheet after the timestamp: the name in the header row and
  the key of the record whose value the writer puts under it.
\<close>

definition columns :: "(string \<times> string) list" where
  "columns =
     [(''Type'', ''type''), (''Track Name'', ''track_name''), (''Artist(s)'', ''artists''),
      (''Album'', ''album''), (''Duration (ms)'', ''duration_ms''),
      (''Popularity'', ''popularity''), (''Played At'', ''played_at''),
      (''Context'', ''context'')]"

text \<open>A record without one of its keys.\<close>

definition without_key :: "string \<Rightarrow> pydict \<Rightarrow> pydict" where
  "without_key k d = filter (\<lambda>(k', v). k' \<noteq> k) d"

text \<open>The world after \<open>n\<close> runs of \<^verbatim>\<open>get_google_sheet\<close>, one after the other.\<close>

fun repeat_get_google_sheet :: "nat \<Rightarrow> 'w sheets \<Rightarrow> 'w \<Rightarrow> 'w" where
  "repeat_get_google_sheet 0 api w = w"
| "repeat_get_google_sheet (Suc n) api w =
     repeat_get_google_sheet n api (fst (snd (get_google_sheet api w)))"

section \<open>Sample inputs\<close>

text \<open>An empty spreadsheet on a service that answers every call.\<close>

definition empty_sheet :: sheet_world where
  "empty_sheet = \<lparr>sheet_rows = [], sheet_time = 0, sheet_faults = []\<rparr>"

text \<open>An empty spreadsheet on a service that refuses the first \<^verbatim>\<open>append_rows\<close>.\<close>

definition flaky_sheet :: sheet_world where
  "flaky_sheet =
     \<lparr>sheet_rows = [], sheet_time = 0, sheet_faults = [Some (LibraryError ''quota'')]\<rparr>"

definition sample_record :: pydict where
  "sample_record =
     [(''type'', PStr ''recent''), (''track_name'', PStr ''Song''), (''artists'', PStr ''A, B''),
      (''album'', PStr ''Album''), (''duration_ms'', PInt 1000), (''popularity'', PInt 7),
      (''played_at'', PStr ''2024-01-01 10:00:00''), (''context'', PStr ''playlist'')]"

definition sample_artist :: pyval where
  "sample_artist =
     PDict [(''name'', PStr ''Band''), (''popularity'', PInt 80),
            (''genres'', PList [PStr ''rock'', PStr ''pop'', PStr ''jazz'', PStr ''folk''])]"

definition sample_artist_record :: pydict where
  "sample_artist_record =
     [(''type'', PStr ''artist_medium_term''), (''track_name'', PStr []),
      (''artists'', PStr ''Band''), (''album'', PStr []), (''duration_ms'', PStr []),
      (''popularity'', PInt 80), (''played_at'', PStr []), (''context'', PStr ''top_artists''),
      (''genres'', PStr ''rock, pop, jazz'')]"

definition sample_track :: pyval where
  "sample_track =
     PDict [(''name'', PStr ''Song''),
            (''artists'', PList [PDict [(''name'', PStr ''A'')], PDict [(''name'', PStr ''B'')]]),
            (''album'', PDict [(''name'', PStr ''Album'')]),
            (''duration_ms'', PInt 1000),
            (''popularity'', PInt 7)]"

text \<open>A play with a context, and a play without context of a track without artists.\<close>

definition sample_play :: pyval where
  "sample_play =
     PDict [(''track'', sample_track),
            (''played_at'', PStr ''2024-01-01T10:00:00.000Z''),
            (''context'', PDict [(''type'', PStr ''playlist'')])]"

definition bare_play :: pyval where
  "bare_play =
     PDict [(''track'',
             PDict [(''name'', PStr ''Solo''), (''artists'', PList []),
                    (''album'', PDict [(''name'', PStr ''Tape'')]),
                    (''duration_ms'', PInt 5), (''popularity'', PInt 0)]),
            (''played_at'', PStr ''2024-01-01T11:00:00.000Z''),
            (''context'', PNone)]"

text \<open>
  A stand-in for the reformatting of the time of play: it accepts the strings of
  24 characters, the length of a time with milliseconds such as
  \<^verbatim>\<open>2024-01-01T10:00:00.000Z\<close>, and keeps the date and the time of day.  Like
  \<^verbatim>\<open>strptime\<close> with the format of the program, it refuses a time without
  fractional seconds such as \<^verbatim>\<open>2024-01-01T10:00:00Z\<close>.
\<close>

definition sample_reformat :: "string \<Rightarrow> pyerr + string" where
  "sample_reformat s =
     (if length s = 24 then Inr (take 10 s @ '' '' @ take 8 (drop 11 s)) else Inl ValueError)"

definition sample_sp :: spotify where
  "sample_sp =
     \<lparr>current_user_recently_played =
        (\<lambda>limit. Inr (PDict [(''items'', PList [sample_play, bare_play])])),
      current_user_top_tracks =
        (\<lambda>limit time_range. Inr (PDict [(''items'', PList [sample_track])])),
      current_user_top_artists =
        (\<lambda>limit time_range. Inr (PDict [(''items'', PList [sample_artist])]))\<rparr>"

text \<open>
  A play whose time has no fractional seconds, and a client that answers with a
  good play followed by it.
\<close>

definition plain_play :: pyval where
  "plain_play =
     PDict [(''track'', sample_track),
            (''played_at'', PStr ''2024-01-01T10:00:00Z''),
            (''context'', PNone)]"

definition plain_sp :: spotify where
  "plain_sp =
     sample_sp\<lparr>current_user_recently_played :=
        (\<lambda>limit. Inr (PDict [(''items'', PList [sample_play, plain_play])]))\<rparr>"

text \<open>
  Three clients that fail: every request times out; every response lacks its
  \<^verbatim>\<open>items\<close>; every response holds one good item followed by a number.
\<close>

definition timeout_sp :: spotify where
  "timeout_sp =
     \<lparr>current_user_recently_played = (\<lambda>limit. Inl (LibraryError ''timeout'')),
      current_user_top_tracks = (\<lambda>limit time_range. Inl (LibraryError ''timeout'')),
      current_user_top_artists = (\<lambda>limit time_range. Inl (LibraryError ''timeout''))\<rparr>"

definition no_items_sp :: spotify where
  "no_items_sp =
     \<lparr>current_user_recently_played = (\<lambda>limit. Inr (PDict [])),
      current_user_top_tracks = (\<lambda>limit time_range. Inr (PDict [])),
      current_user_top_artists = (\<lambda>limit time_range. Inr (PDict []))\<rparr>"

definition bad_item_sp :: spotify where
  "bad_item_sp =
     \<lparr>current_user_recently_played =
        (\<lambda>limit. Inr (PDict [(''items'', PList [sample_play, PInt 3])])),
      current_user_top_tracks =
        (\<lambda>limit time_range. Inr (PDict [(''items'', PList [sample_track, PInt 3])])),
      current_user_top_artists =
        (\<lambda>limit time_range. Inr (PDict [(''items'', PList [sample_artist, PInt 3])]))\<rparr>"

text \<open>
  Token stores at time 1000: a token that expired and can be refreshed, a token that
  expired and has no refresh token, and a token that is still good.
\<close>

definition expired_token :: pyval where
  "expired_token =
     PDict [(''access_token'', PStr ''old''), (''refresh_token'', PStr ''r1''),
            (''expires_at'', PInt 0)]"

definition stale_token :: pyval where
  "stale_token = PDict [(''access_token'', PStr ''old''), (''expires_at'', PInt 0)]"

definition good_token :: pyval where
  "good_token =
     PDict [(''access_token'', PStr ''old''), (''refresh_token'', PStr ''r1''),
            (''expires_at'', PInt 5000)]"

definition token_store :: "pyval \<Rightarrow> auth_world" where
  "token_store t = \<lparr>token_file = Some t, auth_time = 1000\<rparr>"

section \<open>The batches of the writer\<close>

declare batches_of.simps [simp del]
declare append_batches.simps [simp del]


lemma appended_append: "appended (xs @ ys) = appended xs @ appended ys"
  by (induction xs rule: appended.induct) auto

lemma batch_errors_append: "batch_errors (xs @ ys) = batch_errors xs @ batch_errors ys"
  by (induction xs rule: batch_errors.induct) auto

lemma build_rows_eq: "build_rows ts data acc = acc @ map (make_row ts) data"
  by (induction data arbitrary: acc) auto

lemma batches_of_Nil: "batches_of [] = []"
  by (subst batches_of.simps) simp

lemma batches_of_step:
  "xs \<noteq> [] \<Longrightarrow> batches_of xs = take batch_size xs # batches_of (drop batch_size xs)"
  by (subst batches_of.simps) simp

lemma drop_step: "drop batch_size (drop i rows) = drop (i + batch_size) rows"
  by (simp add: add.commute)

lemma appended_append_batches:
  "appended (snd (append_batches api rows i w tr)) = appended tr @ batches_of (drop i rows)"
proof (induction api rows i w tr rule: append_batches.induct)
  case (1 api rows i w tr)
  show ?case
  proof (cases "i < length rows")
    case False
    then show ?thesis by (subst append_batches.simps) (simp add: batches_of_Nil)
  next
    case True
    define batch where "batch = take batch_size (drop i rows)"
    obtain r w' where call: "ws_append_rows api w batch = (r, w')"
      by (cases "ws_append_rows api w batch")
    have ne: "drop i rows \<noteq> []" using True by simp
    have split: "batches_of (drop i rows) = batch # batches_of (drop (i + batch_size) rows)"
      using batches_of_step [OF ne] by (simp add: batch_def add.commute)
    show ?thesis
    proof (cases r)
      case None
      have "appended (snd (append_batches api rows (i + batch_size) (sleep api 1 w')
                (tr @ [Append_rows batch, Sleep 1])))
            = appended (tr @ [Append_rows batch, Sleep 1]) @ batches_of (drop (i + batch_size) rows)"
        using "1.IH"(1) [OF True batch_def call [symmetric] None] .
      then show ?thesis
        using True call None split
        by (subst append_batches.simps) (simp add: batch_def [symmetric] appended_append)
    next
      case (Some e)
      have "appended (snd (append_batches api rows (i + batch_size) w'
                (tr @ [Append_rows batch, Print (Error_adding_batch e)])))
            = appended (tr @ [Append_rows batch, Print (Error_adding_batch e)]) @ batches_of (drop (i + batch_size) rows)"
        using "1.IH"(2) [OF True batch_def call [symmetric] Some] .
      then show ?thesis
        using True call Some split
        by (subst append_batches.simps) (simp add: batch_def [symmetric] appended_append)
    qed
  qed
qed


lemma batch_errors_append_batches:
  "batch_errors (snd (append_batches api rows i w tr))
     = batch_errors tr @ failures (outcomes api w (batches_of (drop i rows)))"
proof (induction api rows i w tr rule: append_batches.induct)
  case (1 api rows i w tr)
  show ?case
  proof (cases "i < length rows")
    case False
    then show ?thesis by (subst append_batches.simps) (simp add: batches_of_Nil)
  next
    case True
    define batch where "batch = take batch_size (drop i rows)"
    obtain r w' where call: "ws_append_rows api w batch = (r, w')"
      by (cases "ws_append_rows api w batch")
    have ne: "drop i rows \<noteq> []" using True by simp
    have split: "batches_of (drop i rows) = batch # batches_of (drop (i + batch_size) rows)"
      using batches_of_step [OF ne] by (simp add: batch_def add.commute)
    show ?thesis
    proof (cases r)
      case None
      have "batch_errors (snd (append_batches api rows (i + batch_size) (sleep api 1 w')
                (tr @ [Append_rows batch, Sleep 1])))
            = batch_errors (tr @ [Append_rows batch, Sleep 1]) @
              failures (outcomes api (sleep api 1 w') (batches_of (drop (i + batch_size) rows)))"
        using "1.IH"(1) [OF True batch_def call [symmetric] None] .
      then show ?thesis
        using True call None split
        by (subst append_batches.simps) (simp add: batch_def [symmetric] batch_errors_append)
    next
      case (Some e)
      have "batch_errors (snd (append_batches api rows (i + batch_size) w'
                (tr @ [Append_rows batch, Print (Error_adding_batch e)])))
            = batch_errors (tr @ [Append_rows batch, Print (Error_adding_batch e)]) @
              failures (outcomes api w' (batches_of (drop (i + batch_size) rows)))"
        using "1.IH"(2) [OF True batch_def call [symmetric] Some] .
      then show ?thesis
        using True call Some split
        by (subst append_batches.simps) (simp add: batch_def [symmetric] batch_errors_append)
    qed
  qed
qed

lemma concat_batches_of: "concat (batches_of xs) = xs"
proof (induction xs rule: batches_of.induct)
  case (1 xs)
  show ?case
  proof (cases "xs = []")
    case True
    then show ?thesis by (simp add: batches_of_Nil)
  next
    case False
    then show ?thesis using "1.IH" by (subst batches_of.simps) simp
  qed
qed

lemma ceil_step: "0 < (n::nat) \<Longrightarrow> Suc ((n - 50 + 49) div 50) = (n + 49) div 50"
proof (cases "n < 50")
  case True
  assume "0 < n"
  with True show ?thesis by simp
next
  case False
  then obtain m where "n = m + 50" by (metis add.commute le_Suc_ex not_less)
  then show ?thesis by simp
qed

lemma length_batches_of: "length (batches_of xs) = (length xs + 49) div 50"
proof (induction xs rule: batches_of.induct)
  case (1 xs)
  show ?case
  proof (cases "xs = []")
    case True
    then show ?thesis by (simp add: batches_of_Nil)
  next
    case False
    then have pos: "0 < length xs" by simp
    have "length (batches_of xs) = Suc (length (batches_of (drop batch_size xs)))"
      using False by (subst batches_of.simps) simp
    also have "\<dots> = Suc ((length xs - 50 + 49) div 50)"
      using "1.IH" [OF False] by (simp add: batch_size_def)
    also have "\<dots> = (length xs + 49) div 50"
      using pos by (rule ceil_step)
    finally show ?thesis .
  qed
qed

lemma batches_of_bounded: "b \<in> set (batches_of xs) \<Longrightarrow> b \<noteq> [] \<and> length b \<le> 50"
proof (induction xs rule: batches_of.induct)
  case (1 xs)
  show ?case
  proof (cases "xs = []")
    case True
    then show ?thesis using "1.prems" by (simp add: batches_of_Nil)
  next
    case False
    have "b = take batch_size xs \<or> b \<in> set (batches_of (drop batch_size xs))"
      using "1.prems" False by (subst (asm) batches_of.simps) simp
    then show ?thesis
      using "1.IH" [OF False] False by (auto simp: batch_size_def)
  qed
qed

lemma appended_export:
  "data \<noteq> [] \<Longrightarrow>
   appended (snd (export_to_sheets api w data)) = batches_of (map (make_row (clock api w)) data)"
  by (simp add: export_to_sheets_def build_rows_eq appended_append_batches)

lemma batch_errors_export:
  "data \<noteq> [] \<Longrightarrow>
   batch_errors (snd (export_to_sheets api w data))
     = failures (outcomes api w (batches_of (map (make_row (clock api w)) data)))"
  by (simp add: export_to_sheets_def build_rows_eq batch_errors_append_batches)

lemma in_batches_of: "b \<in> set (batches_of xs) \<Longrightarrow> set b \<subseteq> set xs"
proof -
  assume "b \<in> set (batches_of xs)"
  then have "set b \<subseteq> set (concat (batches_of xs))" by auto
  then show ?thesis by (simp add: concat_batches_of)
qed

lemma written_rows:
  assumes "batch \<in> set (appended (snd (export_to_sheets api w data)))" and "row \<in> set batch"
  shows "\<exists>item \<in> set data. row = make_row (clock api w) item"
proof (cases "data = []")
  case True
  then show ?thesis using assms by (simp add: export_to_sheets_def)
next
  case False
  then have "batch \<in> set (batches_of (map (make_row (clock api w)) data))"
    using assms(1) by (simp add: appended_export)
  then have "row \<in> set (map (make_row (clock api w)) data)"
    using in_batches_of assms(2) by blast
  then show ?thesis by auto
qed

text \<open>
  C1.  For a non-empty list of \<open>R\<close> records, the batches \<^verbatim>\<open>export_to_sheets\<close>
  hands to \<^verbatim>\<open>append_rows\<close> are \<open>\<lceil>R / 50\<rceil>\<close> in number, each has at most 50 rows,
  and their concatenation in the order of the calls is the list of the rows of the
  records, in the order of the input.  This holds whatever the service answers.
\<close>

theorem export_batches_partition:
  assumes "data \<noteq> []"
  shows "length (appended (snd (export_to_sheets api w data))) = (length data + 49) div 50 \<and>
         (\<forall>batch \<in> set (appended (snd (export_to_sheets api w data))). length batch \<le> 50) \<and>
         concat (appended (snd (export_to_sheets api w data))) = map (make_row (clock api w)) data"
  using assms
  by (simp add: appended_export length_batches_of concat_batches_of batches_of_bounded)

theorem export_batches_partition_witness:
  "replicate 51 sample_record \<noteq> [] \<and>
   length (appended (snd (export_to_sheets sim_sheets empty_sheet (replicate 51 sample_record)))) = 2 \<and>
   concat (appended (snd (export_to_sheets sim_sheets empty_sheet (replicate 51 sample_record))))
     = replicate 51 (make_row (stamp 0) sample_record)"
proof -
  have ne: "replicate 51 sample_record \<noteq> []" by simp
  show ?thesis
    using ne export_batches_partition [OF ne, of sim_sheets empty_sheet]
    by (simp add: sim_sheets_def empty_sheet_def)
qed

text \<open>
  C8.  Every batch of the partition is handed to \<^verbatim>\<open>append_rows\<close> exactly once and
  in order, whether or not earlier batches failed (no retry, no abort), and the
  exceptions printed are exactly those of the batches the service refused.
\<close>

theorem export_skips_failed_batch:
  assumes "data \<noteq> []"
  shows "appended (snd (export_to_sheets api w data))
           = batches_of (map (make_row (clock api w)) data) \<and>
         batch_errors (snd (export_to_sheets api w data))
           = failures (outcomes api w (batches_of (map (make_row (clock api w)) data)))"
  using assms by (simp add: appended_export batch_errors_export)

theorem export_skips_failed_batch_witness:
  "replicate 51 sample_record \<noteq> [] \<and>
   appended (snd (export_to_sheets sim_sheets flaky_sheet (replicate 51 sample_record)))
     = [replicate 50 (make_row (stamp 0) sample_record), [make_row (stamp 0) sample_record]] \<and>
   batch_errors (snd (export_to_sheets sim_sheets flaky_sheet (replicate 51 sample_record)))
     = [LibraryError ''quota'']"
proof -
  have ne: "replicate 51 sample_record \<noteq> []" by simp
  have bs: "batches_of (replicate 51 (make_row (stamp 0) sample_record))
              = [replicate 50 (make_row (stamp 0) sample_record),
                 [make_row (stamp 0) sample_record]]"
    by (simp add: batches_of_step batches_of_Nil batch_size_def)
  show ?thesis
    using ne export_skips_failed_batch [OF ne, of sim_sheets flaky_sheet]
    by (simp add: sim_sheets_def flaky_sheet_def bs sim_append_rows_def)
qed

text \<open>
  The whole run on the flaky service: the first batch is refused and
  reported, the second is appended, and only its row reaches the sheet.
\<close>

lemma failed_batch_run:
  "export_to_sheets sim_sheets flaky_sheet (replicate 51 sample_record) =
     (\<lparr>sheet_rows = [make_row (stamp 0) sample_record], sheet_time = 1, sheet_faults = []\<rparr>,
      [Append_rows (replicate 50 (make_row (stamp 0) sample_record)),
       Print (Error_adding_batch (LibraryError ''quota'')),
       Append_rows [make_row (stamp 0) sample_record], Sleep 1])"
  by (simp add: export_to_sheets_def build_rows_eq append_batches.simps sim_sheets_def
        flaky_sheet_def sim_append_rows_def batch_size_def Let_def)

text \<open>
  C9.  With an empty list of records \<^verbatim>\<open>export_to_sheets\<close> prints its notice and
  returns: the world is the one it was given and no \<^verbatim>\<open>append_rows\<close> call is made.
\<close>

theorem export_empty_data:
  "export_to_sheets api w [] = (w, [Print No_data_to_export]) \<and>
   appended (snd (export_to_sheets api w [])) = []"
  by (simp add: export_to_sheets_def)

text \<open>
  C10.  Every row of every batch of one call starts with the same cell: the time
  the clock showed when the call began, although the clock moves on while the
  batches are written.
\<close>

theorem rows_share_timestamp:
  "\<forall>batch \<in> set (appended (snd (export_to_sheets api w data))).
     \<forall>row \<in> set batch. row \<noteq> [] \<and> hd row = PStr (clock api w)"
proof (intro ballI)
  fix batch row
  assume "batch \<in> set (appended (snd (export_to_sheets api w data)))" and "row \<in> set batch"
  then have "\<exists>item \<in> set data. row = make_row (clock api w) item"
    by (rule written_rows)
  then obtain item where "row = make_row (clock api w) item"
    by blast
  then show "row \<noteq> [] \<and> hd row = PStr (clock api w)" by (simp add: make_row_def)
qed

theorem rows_share_timestamp_witness:
  "appended (snd (export_to_sheets sim_sheets empty_sheet [sample_record]))
     = [[make_row (stamp 0) sample_record]] \<and>
   hd (make_row (stamp 0) sample_record) = PStr (stamp 0) \<and>
   clock sim_sheets (fst (export_to_sheets sim_sheets empty_sheet [sample_record])) = stamp 1"
  using rows_share_timestamp [of sim_sheets empty_sheet "[sample_record]"]
  by (simp add: export_to_sheets_def append_batches.simps sim_sheets_def empty_sheet_def
        sim_append_rows_def batch_size_def make_row_def Let_def)

section \<open>The rows of the writer\<close>

lemma map_of_without_key: "k' \<noteq> k \<Longrightarrow> map_of (without_key k d) k' = map_of d k'"
  by (induction d) (auto simp: without_key_def)

lemma make_row_without_genres: "make_row ts (without_key ''genres'' item) = make_row ts item"
  by (simp add: make_row_def dict_get_def map_of_without_key)

lemma make_row_columns:
  "make_row ts item = PStr ts # map (\<lambda>(title, key). dict_get item key) columns"
  by (simp add: make_row_def columns_def)

lemma headers_columns: "headers = [PStr ''Timestamp'' # map (\<lambda>(title, key). PStr title) columns]"
  by (simp add: headers_def columns_def)

lemma top_artist_record_genres:
  assumes "top_artist_record time_range artist = Inr r"
  shows "\<exists>genres g3 g. subscript artist ''genres'' = Inr genres \<and> first_three genres = Inr g3 \<and>
           comma_join g3 = Inr g \<and> map_of r ''genres'' = Some (PStr g)"
  using assms
  by (auto simp: top_artist_record_def then_do_def split: sum.splits)

text \<open>
  C7.  Every row handed to \<^verbatim>\<open>append_rows\<close> has nine cells: the timestamp and, under
  each of the eight column titles of the header row, the value of the record's key
  for that column.  No column reads \<^verbatim>\<open>genres\<close>: a top-artist record carries the
  field (its first three genres, comma-joined), and its row is the same without it.
\<close>

theorem rows_have_nine_cells:
  "(\<forall>batch \<in> set (appended (snd (export_to_sheets api w data))). \<forall>row \<in> set batch.
      length row = 9 \<and>
      (\<exists>item \<in> set data.
         row = PStr (clock api w) # map (\<lambda>(title, key). dict_get item key) columns)) \<and>
   headers = [PStr ''Timestamp'' # map (\<lambda>(title, key). PStr title) columns] \<and>
   ''genres'' \<notin> set (map snd columns) \<and>
   (top_artist_record time_range artist = Inr r \<longrightarrow>
      (\<exists>genres g3 g. subscript artist ''genres'' = Inr genres \<and> first_three genres = Inr g3 \<and>
         comma_join g3 = Inr g \<and> map_of r ''genres'' = Some (PStr g)) \<and>
      make_row ts (without_key ''genres'' r) = make_row ts r)"
proof (intro conjI ballI impI)
  fix batch row
  assume "batch \<in> set (appended (snd (export_to_sheets api w data)))" and "row \<in> set batch"
  then have ex: "\<exists>item \<in> set data. row = make_row (clock api w) item"
    by (rule written_rows)
  then show "length row = 9" by (auto simp: make_row_def)
  from ex show "\<exists>item \<in> set data.
      row = PStr (clock api w) # map (\<lambda>(title, key). dict_get item key) columns"
    by (simp add: make_row_columns)
next
  show "headers = [PStr ''Timestamp'' # map (\<lambda>(title, key). PStr title) columns]"
    by (rule headers_columns)
next
  show "''genres'' \<notin> set (map snd columns)" by (simp add: columns_def)
next
  assume "top_artist_record time_range artist = Inr r"
  then show "\<exists>genres g3 g. subscript artist ''genres'' = Inr genres \<and> first_three genres = Inr g3 \<and>
         comma_join g3 = Inr g \<and> map_of r ''genres'' = Some (PStr g)"
    by (rule top_artist_record_genres)
next
  show "make_row ts (without_key ''genres'' r) = make_row ts r"
    by (rule make_row_without_genres)
qed

theorem rows_have_nine_cells_witness:
  "top_artist_record ''medium_term'' sample_artist = Inr sample_artist_record \<and>
   map_of sample_artist_record ''genres'' = Some (PStr ''rock, pop, jazz'') \<and>
   appended (snd (export_to_sheets sim_sheets empty_sheet [sample_artist_record]))
     = [[[PStr (stamp 0), PStr ''artist_medium_term'', PStr [], PStr ''Band'', PStr [], PStr [],
          PInt 80, PStr [], PStr ''top_artists'']]]"
proof -
  have rec: "top_artist_record ''medium_term'' sample_artist = Inr sample_artist_record"
    by (simp add: top_artist_record_def sample_artist_def sample_artist_record_def then_do_def
          comma_join_def)
  show ?thesis
    using rec rows_have_nine_cells [of sim_sheets empty_sheet "[sample_artist_record]"
        "''medium_term''" sample_artist sample_artist_record "stamp 0"]
    by (simp add: export_to_sheets_def append_batches.simps sim_sheets_def empty_sheet_def
          sim_append_rows_def batch_size_def make_row_def Let_def dict_get_def
          sample_artist_record_def)
qed

section \<open>The header row\<close>

lemma get_google_sheet_unchanged:
  "connect api w = None \<Longrightarrow> ws_get api w ''A1'' = Inr a1 \<Longrightarrow> truthy a1 \<Longrightarrow>
   get_google_sheet api w = (True, w, [])"
  by (simp add: get_google_sheet_def)

lemma get_google_sheet_appended:
  "connect api w = None \<Longrightarrow> ws_get api w ''A1'' = Inr a1 \<Longrightarrow>
   appended (snd (snd (get_google_sheet api w))) = (if truthy a1 then [] else [headers])"
  by (auto simp: get_google_sheet_def split: prod.splits option.splits)

lemma sim_header_present:
  "sheet_rows sw = headers @ rest \<Longrightarrow> get_google_sheet sim_sheets sw = (True, sw, [])"
  by (rule get_google_sheet_unchanged [where ?a1.0 = "PList [PList [PStr ''Timestamp'']]"])
     (simp_all add: sim_sheets_def a1_range_v5_def first_cell_def headers_def)

lemma sim_repeat_unchanged:
  "sheet_rows sw = headers @ rest \<Longrightarrow> repeat_get_google_sheet n sim_sheets sw = sw"
  by (induction n) (simp_all add: sim_header_present)

lemma sim_first_run:
  assumes "sheet_rows sw = []" and "sheet_faults sw = []"
  shows "get_google_sheet sim_sheets sw = (True, sw\<lparr>sheet_rows := headers\<rparr>, [Append_rows headers])"
  using assms
  by (simp add: get_google_sheet_def sim_sheets_def a1_range_v5_def first_cell_def sim_append_rows_def)

lemma sim_repeat_from_empty:
  "sheet_rows sw = [] \<Longrightarrow>
   sheet_rows (repeat_get_google_sheet n sim_sheets sw) = [] \<or>
   sheet_rows (repeat_get_google_sheet n sim_sheets sw) = headers"
proof (induction n arbitrary: sw)
  case 0
  then show ?case by simp
next
  case (Suc n)
  let ?w = "fst (snd (get_google_sheet sim_sheets sw))"
  have "sheet_rows ?w = [] \<or> sheet_rows ?w = headers @ []"
    using Suc.prems
    by (auto simp: get_google_sheet_def sim_sheets_def a1_range_v5_def first_cell_def sim_append_rows_def
          split: list.splits option.splits)
  then show ?case
  proof
    assume "sheet_rows ?w = []"
    then show ?thesis using Suc.IH [of ?w] by simp
  next
    assume "sheet_rows ?w = headers @ []"
    then have "repeat_get_google_sheet n sim_sheets ?w = ?w" by (rule sim_repeat_unchanged)
    then show ?thesis using \<open>sheet_rows ?w = headers @ []\<close> by simp
  qed
qed

text \<open>
  What the program decides, and what follows behind gspread 5.  Once connected,
  \<^verbatim>\<open>get_google_sheet\<close> appends the header row exactly when the answer of
  \<^verbatim>\<open>get('A1')\<close> is false, and otherwise changes nothing.  Behind gspread 5, where
  an empty first cell answers \<^verbatim>\<open>[]\<close>: a sheet whose first row is the header is left
  as it is; any number of runs on an empty sheet leaves exactly the header row; and
  if the service may refuse calls, runs on an empty sheet leave it empty or with
  the one header row.
\<close>

lemma header_only_when_sheet_empty:
  "(connect api w = None \<and> ws_get api w ''A1'' = Inr a1 \<longrightarrow>
      appended (snd (snd (get_google_sheet api w))) = (if truthy a1 then [] else [headers]) \<and>
      (truthy a1 \<longrightarrow> get_google_sheet api w = (True, w, []))) \<and>
   (sheet_rows sw = headers @ rest \<longrightarrow> get_google_sheet sim_sheets sw = (True, sw, [])) \<and>
   (sheet_rows sw = [] \<and> sheet_faults sw = [] \<longrightarrow>
      sheet_rows (repeat_get_google_sheet (Suc n) sim_sheets sw) = headers) \<and>
   (sheet_rows sw = [] \<longrightarrow>
      sheet_rows (repeat_get_google_sheet n sim_sheets sw) = [] \<or>
      sheet_rows (repeat_get_google_sheet n sim_sheets sw) = headers)"
proof (intro conjI impI)
  assume a: "connect api w = None \<and> ws_get api w ''A1'' = Inr a1"
  then show "appended (snd (snd (get_google_sheet api w))) = (if truthy a1 then [] else [headers])"
    by (simp add: get_google_sheet_appended)
  assume "truthy a1"
  with a show "get_google_sheet api w = (True, w, [])"
    by (simp add: get_google_sheet_unchanged)
next
  assume "sheet_rows sw = headers @ rest"
  then show "get_google_sheet sim_sheets sw = (True, sw, [])" by (rule sim_header_present)
next
  assume e: "sheet_rows sw = [] \<and> sheet_faults sw = []"
  then have first: "get_google_sheet sim_sheets sw
      = (True, sw\<lparr>sheet_rows := headers\<rparr>, [Append_rows headers])"
    by (simp add: sim_first_run)
  have "sheet_rows (sw\<lparr>sheet_rows := headers\<rparr>) = headers @ []" by simp
  then have "repeat_get_google_sheet n sim_sheets (sw\<lparr>sheet_rows := headers\<rparr>)
      = sw\<lparr>sheet_rows := headers\<rparr>"
    by (rule sim_repeat_unchanged)
  then show "sheet_rows (repeat_get_google_sheet (Suc n) sim_sheets sw) = headers"
    by (simp add: first)
next
  assume "sheet_rows sw = []"
  then show "sheet_rows (repeat_get_google_sheet n sim_sheets sw) = [] \<or>
      sheet_rows (repeat_get_google_sheet n sim_sheets sw) = headers"
    by (rule sim_repeat_from_empty)
qed

text \<open>The runs of that lemma on the empty sheet.\<close>

lemma header_on_empty_sheet_v5:
  "connect sim_sheets empty_sheet = None \<and>
   ws_get sim_sheets empty_sheet ''A1'' = Inr (PList []) \<and>
   appended (snd (snd (get_google_sheet sim_sheets empty_sheet))) = [headers] \<and>
   sheet_rows (repeat_get_google_sheet (Suc 2) sim_sheets empty_sheet) = headers \<and>
   get_google_sheet sim_sheets (empty_sheet\<lparr>sheet_rows := headers\<rparr>)
     = (True, empty_sheet\<lparr>sheet_rows := headers\<rparr>, [])"
proof -
  have a: "connect sim_sheets empty_sheet = None"
    by (simp add: sim_sheets_def)
  have b: "ws_get sim_sheets empty_sheet ''A1'' = Inr (PList [])"
    by (simp add: sim_sheets_def empty_sheet_def a1_range_v5_def first_cell_def)
  have c: "sheet_rows empty_sheet = [] \<and> sheet_faults empty_sheet = []"
    by (simp add: empty_sheet_def)
  have d: "sheet_rows (empty_sheet\<lparr>sheet_rows := headers\<rparr>) = headers @ []"
    by simp
  show ?thesis
    using a b c d
      header_only_when_sheet_empty [of sim_sheets empty_sheet "PList []" empty_sheet "[]" 2]
      header_only_when_sheet_empty [of sim_sheets empty_sheet "PList []"
        "empty_sheet\<lparr>sheet_rows := headers\<rparr>" "[]" 2]
    by simp
qed

lemma a1_range_v6_truthy: "truthy (a1_range_v6 rows)"
  by (simp add: a1_range_v6_def)

lemma sim_v6_never_appends: "get_google_sheet sim_sheets_v6 sw = (True, sw, [])"
  by (rule get_google_sheet_unchanged [where ?a1.0 = "a1_range_v6 (sheet_rows sw)"])
     (simp_all add: sim_sheets_v6_def sim_sheets_def a1_range_v6_truthy)

lemma sim_v6_repeat: "repeat_get_google_sheet n sim_sheets_v6 sw = sw"
  by (induction n) (simp_all add: sim_v6_never_appends)

text \<open>
  C4.  Behind gspread 6 the header row is not written on an empty sheet.  The
  comment of the program reads \<^verbatim>\<open># Set up headers if sheet is empty\<close>, and the
  test is \<^verbatim>\<open>if not worksheet.get('A1')\<close>.  For a first cell without a value
  gspread 6 answers \<^verbatim>\<open>[[]]\<close>, a list with one element and so true: on the empty
  sheet the program appends nothing, returns the worksheet, and leaves the sheet
  empty, on the first run and on every later one.  The same holds of every sheet:
  behind gspread 6 no run ever appends the header.
\<close>

theorem header_missing_on_empty_sheet:
  "sheet_rows empty_sheet = [] \<and>
   connect sim_sheets_v6 empty_sheet = None \<and>
   ws_get sim_sheets_v6 empty_sheet ''A1'' = Inr (PList [PList []]) \<and>
   truthy (PList [PList []]) \<and>
   get_google_sheet sim_sheets_v6 empty_sheet = (True, empty_sheet, []) \<and>
   appended (snd (snd (get_google_sheet sim_sheets_v6 empty_sheet))) = [] \<and>
   sheet_rows (repeat_get_google_sheet n sim_sheets_v6 empty_sheet) = [] \<and>
   get_google_sheet sim_sheets_v6 sw = (True, sw, []) \<and>
   repeat_get_google_sheet n sim_sheets_v6 sw = sw"
  by (simp add: sim_v6_never_appends sim_v6_repeat)
     (simp add: sim_sheets_v6_def sim_sheets_def empty_sheet_def a1_range_v6_def first_cell_def)

section \<open>The fetchers\<close>

lemma subscript_field: "has_key v k \<Longrightarrow> subscript v k = Inr (field v k)"
  by (simp add: has_key_def field_def split: sum.splits)

lemma names_of_ok:
  "list_all (\<lambda>a. has_key a ''name'') as \<Longrightarrow> names_of as = Inr (map (\<lambda>a. field a ''name'') as)"
  by (induction as) (simp_all add: then_do_def subscript_field)

lemma join_strs_ok: "list_all is_str xs \<Longrightarrow> join_strs xs = Inr (comma_sep (map str_of xs))"
proof (induction xs rule: join_strs.induct)
  case (3 s x xs)
  then show ?case by (cases x) (simp_all add: then_do_def)
qed simp_all

lemma collect_all2:
  "collect f xs acc = Inr rs \<Longrightarrow>
   \<exists>rs'. rs = acc @ rs' \<and> list_all2 (\<lambda>x r. f x = Inr r) xs rs'"
proof (induction xs arbitrary: acc)
  case Nil
  then show ?case by simp
next
  case (Cons x xs)
  from Cons.prems obtain r where r: "f x = Inr r" and rest: "collect f xs (acc @ [r]) = Inr rs"
    by (auto simp: then_do_def split: sum.splits)
  from Cons.IH [OF rest] obtain rs' where "rs = (acc @ [r]) @ rs'"
    and "list_all2 (\<lambda>x r. f x = Inr r) xs rs'" by blast
  then show ?case using r by (intro exI [of _ "r # rs'"]) simp
qed

lemma then_do_Inr: "then_do m f = Inr y \<longleftrightarrow> (\<exists>x. m = Inr x \<and> f x = Inr y)"
  by (cases m) (simp_all add: then_do_def)

lemma recent_record_Inr:
  assumes "recent_record reformat item = Inr r"
  shows "\<exists>track artists ctx. subscript item ''track'' = Inr track \<and>
           artist_names track = Inr artists \<and> context_of item = Inr ctx \<and>
           map_of r ''artists'' = Some (PStr artists) \<and> map_of r ''context'' = Some ctx"
  using assms unfolding recent_record_def then_do_Inr by auto

lemma recent_record_context:
  assumes "recent_record reformat item = Inr r" and "\<not> truthy (field item ''context'')"
  shows "map_of r ''context'' = Some (PStr ''Unknown'')"
proof -
  from assms(1) obtain ctx where c: "context_of item = Inr ctx" and m: "map_of r ''context'' = Some ctx"
    using recent_record_Inr by blast
  from c assms(2) have "ctx = PStr ''Unknown''"
    by (auto simp: context_of_def then_do_def field_def split: sum.splits if_splits)
  with m show ?thesis by simp
qed

lemma recent_record_no_artists:
  assumes "recent_record reformat item = Inr r"
    and "py_iter (field (field item ''track'') ''artists'') = Inr []"
  shows "map_of r ''artists'' = Some (PStr [])"
proof -
  from assms(1) obtain track artists where t: "subscript item ''track'' = Inr track"
    and a: "artist_names track = Inr artists" and m: "map_of r ''artists'' = Some (PStr artists)"
    using recent_record_Inr by blast
  from t have ft: "field item ''track'' = track" by (simp add: field_def)
  from a obtain arts where s: "subscript track ''artists'' = Inr arts"
    and rest: "then_do (py_iter arts) (\<lambda>as. then_do (names_of as) join_strs) = Inr artists"
    unfolding artist_names_def then_do_Inr by auto
  from s have "field track ''artists'' = arts" by (simp add: field_def)
  with assms(2) ft have "py_iter arts = Inr []" by simp
  with rest have "artists = []" by (simp add: then_do_def)
  with m show ?thesis by simp
qed

lemma recently_played_records:
  assumes "current_user_recently_played sp limit = Inr results"
    and "then_do (subscript results ''items'') py_iter = Inr items"
  shows "recently_played_body sp reformat limit = collect (recent_record reformat) items []"
  using assms by (auto simp: recently_played_body_def then_do_def split: sum.splits)

text \<open>
  C3.  When \<^verbatim>\<open>get_recently_played\<close> returns records, there is one per item, and
  the record of an item whose context is null (or otherwise false) has the context
  \<^verbatim>\<open>'Unknown'\<close>, the record of an item whose track has no artists has the empty
  string for its artists.
\<close>

theorem recent_record_defaults:
  assumes "current_user_recently_played sp limit = Inr results"
    and "then_do (subscript results ''items'') py_iter = Inr items"
    and "i < length (fst (get_recently_played sp reformat limit))"
  shows "length (fst (get_recently_played sp reformat limit)) = length items \<and>
         (\<not> truthy (field (items ! i) ''context'') \<longrightarrow>
            map_of (fst (get_recently_played sp reformat limit) ! i) ''context''
              = Some (PStr ''Unknown'')) \<and>
         (py_iter (field (field (items ! i) ''track'') ''artists'') = Inr [] \<longrightarrow>
            map_of (fst (get_recently_played sp reformat limit) ! i) ''artists'' = Some (PStr []))"
proof -
  let ?rs = "fst (get_recently_played sp reformat limit)"
  have body: "recently_played_body sp reformat limit = collect (recent_record reformat) items []"
    using assms(1,2) by (rule recently_played_records)
  from assms(3) have "?rs \<noteq> []" by auto
  then have ok: "collect (recent_record reformat) items [] = Inr ?rs"
    using body by (auto simp: get_recently_played_def split: sum.splits)
  from collect_all2 [OF ok]
  have all2: "list_all2 (\<lambda>x r. recent_record reformat x = Inr r) items ?rs" by simp
  then have len: "length ?rs = length items" by (simp add: list_all2_lengthD)
  from all2 assms(3) have rec: "recent_record reformat (items ! i) = Inr (?rs ! i)"
    by (simp add: list_all2_conv_all_nth)
  show ?thesis
    using len recent_record_context [OF rec] recent_record_no_artists [OF rec] by simp
qed

text \<open>The records of the sample response.\<close>

lemma sample_recent:
  "get_recently_played sample_sp sample_reformat 50 =
     ([[(''type'', PStr ''recent''), (''track_name'', PStr ''Song''), (''artists'', PStr ''A, B''),
        (''album'', PStr ''Album''), (''duration_ms'', PInt 1000), (''popularity'', PInt 7),
        (''played_at'', PStr ''2024-01-01 10:00:00''), (''context'', PStr ''playlist'')],
       [(''type'', PStr ''recent''), (''track_name'', PStr ''Solo''), (''artists'', PStr []),
        (''album'', PStr ''Tape''), (''duration_ms'', PInt 5), (''popularity'', PInt 0),
        (''played_at'', PStr ''2024-01-01 11:00:00''), (''context'', PStr ''Unknown'')]], [])"
  by (simp add: get_recently_played_def recently_played_body_def sample_sp_def then_do_def
        recent_record_def sample_play_def bare_play_def sample_track_def artist_names_def
        format_played_at_def sample_reformat_def context_of_def)

theorem recent_record_defaults_witness:
  "current_user_recently_played sample_sp 50
     = Inr (PDict [(''items'', PList [sample_play, bare_play])]) \<and>
   length (fst (get_recently_played sample_sp sample_reformat 50)) = 2 \<and>
   map_of (fst (get_recently_played sample_sp sample_reformat 50) ! 1) ''context''
     = Some (PStr ''Unknown'') \<and>
   map_of (fst (get_recently_played sample_sp sample_reformat 50) ! 1) ''artists''
     = Some (PStr [])"
proof -
  have a: "current_user_recently_played sample_sp 50
     = Inr (PDict [(''items'', PList [sample_play, bare_play])])"
    by (simp add: sample_sp_def)
  have b: "then_do (subscript (PDict [(''items'', PList [sample_play, bare_play])]) ''items'') py_iter
     = Inr [sample_play, bare_play]"
    by (simp add: then_do_def)
  have c: "1 < length (fst (get_recently_played sample_sp sample_reformat 50))"
    by (simp add: sample_recent)
  have d: "\<not> truthy (field ([sample_play, bare_play] ! 1) ''context'')"
    by (simp add: bare_play_def field_def)
  have e: "py_iter (field (field ([sample_play, bare_play] ! 1) ''track'') ''artists'') = Inr []"
    by (simp add: bare_play_def field_def)
  show ?thesis
    using a d e recent_record_defaults [OF a b c] by simp
qed

lemma collect_first_error:
  "list_all (\<lambda>x. \<exists>r. f x = Inr r) before \<Longrightarrow> f item = Inl e \<Longrightarrow>
   collect f (before @ item # after) acc = Inl e"
  by (induction before arbitrary: acc) (auto simp: then_do_def)

lemma recently_played_error:
  assumes "recently_played_body sp reformat limit = Inl e"
  shows "get_recently_played sp reformat limit = ([], [Print (Error_fetching_recently_played e)])"
  using assms by (simp add: get_recently_played_def)

lemma top_tracks_error:
  assumes "top_tracks_body sp limit time_range = Inl e"
  shows "get_top_tracks sp limit time_range = ([], [Print (Error_fetching_top_tracks e)])"
  using assms by (simp add: get_top_tracks_def)

lemma top_artists_error:
  assumes "top_artists_body sp limit time_range = Inl e"
  shows "get_top_artists sp limit time_range = ([], [Print (Error_fetching_top_artists e)])"
  using assms by (simp add: get_top_artists_def)

lemma recently_played_mapping_error:
  assumes "current_user_recently_played sp limit = Inr results"
    and "then_do (subscript results ''items'') py_iter = Inr (before @ item # after)"
    and "list_all (\<lambda>x. \<exists>r. recent_record reformat x = Inr r) before"
    and "recent_record reformat item = Inl e"
  shows "get_recently_played sp reformat limit = ([], [Print (Error_fetching_recently_played e)])"
proof -
  have "recently_played_body sp reformat limit
      = collect (recent_record reformat) (before @ item # after) []"
    using assms(1,2) by (rule recently_played_records)
  then have "recently_played_body sp reformat limit = Inl e"
    by (simp add: collect_first_error [OF assms(3,4)])
  then show ?thesis by (rule recently_played_error)
qed

lemma top_tracks_mapping_error:
  assumes "current_user_top_tracks sp limit time_range = Inr results"
    and "then_do (subscript results ''items'') py_iter = Inr (before @ item # after)"
    and "list_all (\<lambda>x. \<exists>r. top_track_record time_range x = Inr r) before"
    and "top_track_record time_range item = Inl e"
  shows "get_top_tracks sp limit time_range = ([], [Print (Error_fetching_top_tracks e)])"
proof -
  have "top_tracks_body sp limit time_range
      = collect (top_track_record time_range) (before @ item # after) []"
    using assms(1,2) by (auto simp: top_tracks_body_def then_do_def split: sum.splits)
  then have "top_tracks_body sp limit time_range = Inl e"
    by (simp add: collect_first_error [OF assms(3,4)])
  then show ?thesis by (rule top_tracks_error)
qed

lemma top_artists_mapping_error:
  assumes "current_user_top_artists sp limit time_range = Inr results"
    and "then_do (subscript results ''items'') py_iter = Inr (before @ item # after)"
    and "list_all (\<lambda>x. \<exists>r. top_artist_record time_range x = Inr r) before"
    and "top_artist_record time_range item = Inl e"
  shows "get_top_artists sp limit time_range = ([], [Print (Error_fetching_top_artists e)])"
proof -
  have "top_artists_body sp limit time_range
      = collect (top_artist_record time_range) (before @ item # after) []"
    using assms(1,2) by (auto simp: top_artists_body_def then_do_def split: sum.splits)
  then have "top_artists_body sp limit time_range = Inl e"
    by (simp add: collect_first_error [OF assms(3,4)])
  then show ?thesis by (rule top_artists_error)
qed

text \<open>
  C6.  Each fetcher returns the empty list and prints the exception, and raises
  nothing to its caller, whenever an exception is raised: by the request; by
  reading the items of the response; or by the mapping of an item, wherever the
  item stands in the response, so that the records of the items before it are
  dropped.
\<close>

theorem fetchers_swallow_errors:
  "(current_user_recently_played sp limit = Inl e \<longrightarrow>
      get_recently_played sp reformat limit = ([], [Print (Error_fetching_recently_played e)])) \<and>
   (current_user_top_tracks sp limit time_range = Inl e \<longrightarrow>
      get_top_tracks sp limit time_range = ([], [Print (Error_fetching_top_tracks e)])) \<and>
   (current_user_top_artists sp limit time_range = Inl e \<longrightarrow>
      get_top_artists sp limit time_range = ([], [Print (Error_fetching_top_artists e)])) \<and>
   (current_user_recently_played sp limit = Inr results \<and>
    then_do (subscript results ''items'') py_iter = Inl e \<longrightarrow>
      get_recently_played sp reformat limit = ([], [Print (Error_fetching_recently_played e)])) \<and>
   (current_user_top_tracks sp limit time_range = Inr results \<and>
    then_do (subscript results ''items'') py_iter = Inl e \<longrightarrow>
      get_top_tracks sp limit time_range = ([], [Print (Error_fetching_top_tracks e)])) \<and>
   (current_user_top_artists sp limit time_range = Inr results \<and>
    then_do (subscript results ''items'') py_iter = Inl e \<longrightarrow>
      get_top_artists sp limit time_range = ([], [Print (Error_fetching_top_artists e)])) \<and>
   (current_user_recently_played sp limit = Inr results \<and>
    then_do (subscript results ''items'') py_iter = Inr (before @ item # after) \<and>
    list_all (\<lambda>x. \<exists>r. recent_record reformat x = Inr r) before \<and>
    recent_record reformat item = Inl e \<longrightarrow>
      get_recently_played sp reformat limit = ([], [Print (Error_fetching_recently_played e)])) \<and>
   (current_user_top_tracks sp limit time_range = Inr results \<and>
    then_do (subscript results ''items'') py_iter = Inr (before @ item # after) \<and>
    list_all (\<lambda>x. \<exists>r. top_track_record time_range x = Inr r) before \<and>
    top_track_record time_range item = Inl e \<longrightarrow>
      get_top_tracks sp limit time_range = ([], [Print (Error_fetching_top_tracks e)])) \<and>
   (current_user_top_artists sp limit time_range = Inr results \<and>
    then_do (subscript results ''items'') py_iter = Inr (before @ item # after) \<and>
    list_all (\<lambda>x. \<exists>r. top_artist_record time_range x = Inr r) before \<and>
    top_artist_record time_range item = Inl e \<longrightarrow>
      get_top_artists sp limit time_range = ([], [Print (Error_fetching_top_artists e)]))"
proof (intro conjI impI)
  assume "current_user_recently_played sp limit = Inl e"
  then have "recently_played_body sp reformat limit = Inl e"
    by (simp add: recently_played_body_def then_do_def)
  then show "get_recently_played sp reformat limit
      = ([], [Print (Error_fetching_recently_played e)])"
    by (rule recently_played_error)
next
  assume "current_user_top_tracks sp limit time_range = Inl e"
  then have "top_tracks_body sp limit time_range = Inl e"
    by (simp add: top_tracks_body_def then_do_def)
  then show "get_top_tracks sp limit time_range = ([], [Print (Error_fetching_top_tracks e)])"
    by (rule top_tracks_error)
next
  assume "current_user_top_artists sp limit time_range = Inl e"
  then have "top_artists_body sp limit time_range = Inl e"
    by (simp add: top_artists_body_def then_do_def)
  then show "get_top_artists sp limit time_range = ([], [Print (Error_fetching_top_artists e)])"
    by (rule top_artists_error)
next
  assume "current_user_recently_played sp limit = Inr results \<and>
    then_do (subscript results ''items'') py_iter = Inl e"
  then have "recently_played_body sp reformat limit = Inl e"
    by (auto simp: recently_played_body_def then_do_def split: sum.splits)
  then show "get_recently_played sp reformat limit
      = ([], [Print (Error_fetching_recently_played e)])"
    by (rule recently_played_error)
next
  assume "current_user_top_tracks sp limit time_range = Inr results \<and>
    then_do (subscript results ''items'') py_iter = Inl e"
  then have "top_tracks_body sp limit time_range = Inl e"
    by (auto simp: top_tracks_body_def then_do_def split: sum.splits)
  then show "get_top_tracks sp limit time_range = ([], [Print (Error_fetching_top_tracks e)])"
    by (rule top_tracks_error)
next
  assume "current_user_top_artists sp limit time_range = Inr results \<and>
    then_do (subscript results ''items'') py_iter = Inl e"
  then have "top_artists_body sp limit time_range = Inl e"
    by (auto simp: top_artists_body_def then_do_def split: sum.splits)
  then show "get_top_artists sp limit time_range = ([], [Print (Error_fetching_top_artists e)])"
    by (rule top_artists_error)
next
  assume "current_user_recently_played sp limit = Inr results \<and>
    then_do (subscript results ''items'') py_iter = Inr (before @ item # after) \<and>
    list_all (\<lambda>x. \<exists>r. recent_record reformat x = Inr r) before \<and>
    recent_record reformat item = Inl e"
  then show "get_recently_played sp reformat limit
      = ([], [Print (Error_fetching_recently_played e)])"
    using recently_played_mapping_error by blast
next
  assume "current_user_top_tracks sp limit time_range = Inr results \<and>
    then_do (subscript results ''items'') py_iter = Inr (before @ item # after) \<and>
    list_all (\<lambda>x. \<exists>r. top_track_record time_range x = Inr r) before \<and>
    top_track_record time_range item = Inl e"
  then show "get_top_tracks sp limit time_range = ([], [Print (Error_fetching_top_tracks e)])"
    using top_tracks_mapping_error by blast
next
  assume "current_user_top_artists sp limit time_range = Inr results \<and>
    then_do (subscript results ''items'') py_iter = Inr (before @ item # after) \<and>
    list_all (\<lambda>x. \<exists>r. top_artist_record time_range x = Inr r) before \<and>
    top_artist_record time_range item = Inl e"
  then show "get_top_artists sp limit time_range = ([], [Print (Error_fetching_top_artists e)])"
    using top_artists_mapping_error by blast
qed

text \<open>The sample records of the good items, and what the number maps to.\<close>

lemma sample_item_records:
  "\<exists>r. recent_record sample_reformat sample_play = Inr r"
  "\<exists>r. top_track_record ''short_term'' sample_track = Inr r"
  "\<exists>r. top_artist_record ''short_term'' sample_artist = Inr r"
  "recent_record sample_reformat (PInt 3) = Inl TypeError"
  "top_track_record ''short_term'' (PInt 3) = Inl TypeError"
  "top_artist_record ''short_term'' (PInt 3) = Inl TypeError"
  by (simp_all add: recent_record_def top_track_record_def top_artist_record_def then_do_def
        sample_play_def sample_track_def sample_artist_def artist_names_def
        format_played_at_def sample_reformat_def context_of_def comma_join_def)

theorem fetchers_swallow_errors_witness:
  "current_user_recently_played timeout_sp 50 = Inl (LibraryError ''timeout'') \<and>
   get_recently_played timeout_sp sample_reformat 50
     = ([], [Print (Error_fetching_recently_played (LibraryError ''timeout''))]) \<and>
   get_top_tracks timeout_sp 50 ''short_term''
     = ([], [Print (Error_fetching_top_tracks (LibraryError ''timeout''))]) \<and>
   get_top_artists timeout_sp 50 ''short_term''
     = ([], [Print (Error_fetching_top_artists (LibraryError ''timeout''))]) \<and>
   then_do (subscript (PDict []) ''items'') py_iter = Inl (KeyError ''items'') \<and>
   get_recently_played no_items_sp sample_reformat 50
     = ([], [Print (Error_fetching_recently_played (KeyError ''items''))]) \<and>
   get_top_tracks no_items_sp 50 ''short_term''
     = ([], [Print (Error_fetching_top_tracks (KeyError ''items''))]) \<and>
   get_top_artists no_items_sp 50 ''short_term''
     = ([], [Print (Error_fetching_top_artists (KeyError ''items''))]) \<and>
   top_track_record ''short_term'' (PInt 3) = Inl TypeError \<and>
   get_recently_played bad_item_sp sample_reformat 50
     = ([], [Print (Error_fetching_recently_played TypeError)]) \<and>
   get_top_tracks bad_item_sp 50 ''short_term''
     = ([], [Print (Error_fetching_top_tracks TypeError)]) \<and>
   get_top_artists bad_item_sp 50 ''short_term''
     = ([], [Print (Error_fetching_top_artists TypeError)])"
proof -
  have t: "current_user_recently_played timeout_sp 50 = Inl (LibraryError ''timeout'')"
    "current_user_top_tracks timeout_sp 50 ''short_term'' = Inl (LibraryError ''timeout'')"
    "current_user_top_artists timeout_sp 50 ''short_term'' = Inl (LibraryError ''timeout'')"
    by (simp_all add: timeout_sp_def)
  have n: "current_user_recently_played no_items_sp 50 = Inr (PDict [])"
    "current_user_top_tracks no_items_sp 50 ''short_term'' = Inr (PDict [])"
    "current_user_top_artists no_items_sp 50 ''short_term'' = Inr (PDict [])"
    "then_do (subscript (PDict []) ''items'') py_iter = Inl (KeyError ''items'')"
    by (simp_all add: no_items_sp_def then_do_def)
  have b: "current_user_recently_played bad_item_sp 50
             = Inr (PDict [(''items'', PList [sample_play, PInt 3])])"
    "then_do (subscript (PDict [(''items'', PList [sample_play, PInt 3])]) ''items'') py_iter
       = Inr ([sample_play] @ PInt 3 # [])"
    "current_user_top_tracks bad_item_sp 50 ''short_term''
       = Inr (PDict [(''items'', PList [sample_track, PInt 3])])"
    "then_do (subscript (PDict [(''items'', PList [sample_track, PInt 3])]) ''items'') py_iter
       = Inr ([sample_track] @ PInt 3 # [])"
    "current_user_top_artists bad_item_sp 50 ''short_term''
       = Inr (PDict [(''items'', PList [sample_artist, PInt 3])])"
    "then_do (subscript (PDict [(''items'', PList [sample_artist, PInt 3])]) ''items'') py_iter
       = Inr ([sample_artist] @ PInt 3 # [])"
    by (simp_all add: bad_item_sp_def then_do_def)
  have g: "list_all (\<lambda>x. \<exists>r. recent_record sample_reformat x = Inr r) [sample_play]"
    "list_all (\<lambda>x. \<exists>r. top_track_record ''short_term'' x = Inr r) [sample_track]"
    "list_all (\<lambda>x. \<exists>r. top_artist_record ''short_term'' x = Inr r) [sample_artist]"
    using sample_item_records(1-3) by simp_all
  note bad = sample_item_records(4-6)
  note request = fetchers_swallow_errors [of timeout_sp 50 "LibraryError ''timeout''"
      sample_reformat "''short_term''"]
  note items = fetchers_swallow_errors [of no_items_sp 50 "KeyError ''items''" sample_reformat
      "''short_term''" "PDict []"]
  note play = fetchers_swallow_errors [of bad_item_sp 50 TypeError sample_reformat
      "''short_term''" "PDict [(''items'', PList [sample_play, PInt 3])]" "[sample_play]"
      "PInt 3" "[]"]
  note track = fetchers_swallow_errors [of bad_item_sp 50 TypeError sample_reformat
      "''short_term''" "PDict [(''items'', PList [sample_track, PInt 3])]" "[sample_track]"
      "PInt 3" "[]"]
  note artist = fetchers_swallow_errors [of bad_item_sp 50 TypeError sample_reformat
      "''short_term''" "PDict [(''items'', PList [sample_artist, PInt 3])]" "[sample_artist]"
      "PInt 3" "[]"]
  have r1: "get_recently_played timeout_sp sample_reformat 50
      = ([], [Print (Error_fetching_recently_played (LibraryError ''timeout''))])"
    using request t(1) by blast
  have r2: "get_top_tracks timeout_sp 50 ''short_term''
      = ([], [Print (Error_fetching_top_tracks (LibraryError ''timeout''))])"
    using request t(2) by blast
  have r3: "get_top_artists timeout_sp 50 ''short_term''
      = ([], [Print (Error_fetching_top_artists (LibraryError ''timeout''))])"
    using request t(3) by blast
  have i1: "get_recently_played no_items_sp sample_reformat 50
      = ([], [Print (Error_fetching_recently_played (KeyError ''items''))])"
    using items n(1,4) by blast
  have i2: "get_top_tracks no_items_sp 50 ''short_term''
      = ([], [Print (Error_fetching_top_tracks (KeyError ''items''))])"
    using items n(2,4) by blast
  have i3: "get_top_artists no_items_sp 50 ''short_term''
      = ([], [Print (Error_fetching_top_artists (KeyError ''items''))])"
    using items n(3,4) by blast
  have m1: "get_recently_played bad_item_sp sample_reformat 50
      = ([], [Print (Error_fetching_recently_played TypeError)])"
    using play b(1,2) g(1) bad(1) by blast
  have m2: "get_top_tracks bad_item_sp 50 ''short_term''
      = ([], [Print (Error_fetching_top_tracks TypeError)])"
    using track b(3,4) g(2) bad(2) by blast
  have m3: "get_top_artists bad_item_sp 50 ''short_term''
      = ([], [Print (Error_fetching_top_artists TypeError)])"
    using artist b(5,6) g(3) bad(3) by blast
  show ?thesis
    using t(1) n(4) bad(2) r1 r2 r3 i1 i2 i3 m1 m2 m3 by blast
qed

section \<open>The field mapping\<close>

lemma field_Inr: "subscript v k = Inr x \<Longrightarrow> field v k = x"
  by (simp add: field_def)

lemma list_all_take: "list_all P xs \<Longrightarrow> list_all P (take n xs)"
  by (induction xs arbitrary: n) (auto simp: take_Cons split: nat.splits)

lemma artist_names_ok:
  assumes "wf_track t"
  shows "artist_names t
           = Inr (comma_sep (map (\<lambda>a. str_of (field a ''name'')) (list_of (field t ''artists''))))"
proof -
  from assms obtain as where s: "subscript t ''artists'' = Inr (PList as)"
    and all: "list_all (\<lambda>a. is_str (field a ''name'') \<and> has_key a ''name'') as"
    by (auto simp: wf_track_def split: sum.splits pyval.splits)
  from all have k: "list_all (\<lambda>a. has_key a ''name'') as"
    and st: "list_all is_str (map (\<lambda>a. field a ''name'') as)"
    by (simp_all add: list_all_iff)
  have "artist_names t = join_strs (map (\<lambda>a. field a ''name'') as)"
    by (simp add: artist_names_def s then_do_def names_of_ok [OF k])
  also have "\<dots> = Inr (comma_sep (map str_of (map (\<lambda>a. field a ''name'') as)))"
    by (rule join_strs_ok [OF st])
  finally show ?thesis
    by (simp add: field_Inr [OF s] comp_def)
qed

lemma top_track_record_ok:
  assumes "wf_track t"
  shows "\<exists>r. top_track_record time_range t = Inr r \<and> track_mapping t r"
proof -
  from assms have k: "has_key t ''name''" "has_key t ''duration_ms''" "has_key t ''popularity''"
    "has_key (field t ''album'') ''name''"
    by (simp_all add: wf_track_def)
  from k(4) have alb: "has_key t ''album''"
    by (auto simp: has_key_def field_def split: sum.splits)
  show ?thesis
    by (simp add: top_track_record_def artist_names_ok [OF assms] then_do_def
          subscript_field k alb track_mapping_def)
qed

lemma recent_record_ok:
  assumes "wf_play_item item" and "played_at_parses reformat item"
  shows "\<exists>r. recent_record reformat item = Inr r \<and> track_mapping (field item ''track'') r"
proof -
  let ?t = "field item ''track''"
  from assms(1) have wt: "wf_track ?t" and kc: "has_key item ''context''"
    and ct: "truthy (field item ''context'') \<longrightarrow> has_key (field item ''context'') ''type''"
    and pl: "has_key item ''played_at'' \<longrightarrow> is_str (field item ''played_at'')"
    by (simp_all add: wf_play_item_def)
  from wt have k: "has_key ?t ''name''" "has_key ?t ''duration_ms''" "has_key ?t ''popularity''"
    "has_key (field ?t ''album'') ''name''"
    by (simp_all add: wf_track_def)
  from k(4) have alb: "has_key ?t ''album''"
    by (auto simp: has_key_def field_def split: sum.splits)
  from k(1) have kt: "has_key item ''track''"
    by (auto simp: has_key_def field_def split: sum.splits)
  from kc obtain d where d: "item = PDict d"
    by (cases item) (simp_all add: has_key_def)
  have "\<exists>p. then_do (py_get item ''played_at'' (PStr [])) (format_played_at reformat) = Inr p"
  proof (cases "map_of d ''played_at''")
    case None
    then show ?thesis by (simp add: d then_do_def format_played_at_def)
  next
    case (Some v)
    then have hk: "has_key item ''played_at''" and fv: "field item ''played_at'' = v"
      by (simp_all add: d has_key_def field_def)
    with pl have "is_str v" by simp
    then obtain s where s: "v = PStr s" by (cases v) simp_all
    from assms(2) fv s have "s = [] \<or> (case reformat s of Inr x \<Rightarrow> True | Inl e \<Rightarrow> False)"
      by (simp add: played_at_parses_def)
    then show ?thesis
      by (auto simp: d Some s then_do_def format_played_at_def split: sum.splits)
  qed
  then obtain p where p: "then_do (py_get item ''played_at'' (PStr [])) (format_played_at reformat) = Inr p"
    by blast
  have "\<exists>c. context_of item = Inr c"
    using ct by (simp add: context_of_def subscript_field [OF kc] then_do_def subscript_field)
  then obtain c where c: "context_of item = Inr c" by blast
  from p obtain pa where pa: "py_get item ''played_at'' (PStr []) = Inr pa"
    and fp: "format_played_at reformat pa = Inr p"
    unfolding then_do_Inr by blast
  show ?thesis
    by (simp add: recent_record_def artist_names_ok [OF wt] then_do_def
          subscript_field k alb kt pa fp c track_mapping_def)
qed

lemma top_artist_record_ok:
  assumes "wf_artist a"
  shows "\<exists>r. top_artist_record time_range a = Inr r \<and> artist_mapping a r"
proof -
  from assms have k: "has_key a ''name''" "has_key a ''popularity''"
    by (simp_all add: wf_artist_def)
  from assms obtain gs where g: "subscript a ''genres'' = Inr (PList gs)" and st: "list_all is_str gs"
    by (auto simp: wf_artist_def split: sum.splits pyval.splits)
  have j: "join_strs (take 3 gs) = Inr (comma_sep (map str_of (take 3 gs)))"
    by (rule join_strs_ok [OF list_all_take [OF st]])
  show ?thesis
    by (simp add: top_artist_record_def then_do_def subscript_field k g comma_join_def j
          artist_mapping_def field_Inr [OF g])
qed

lemma collect_mapping:
  assumes "list_all (\<lambda>x. \<exists>r. f x = Inr r \<and> M x r) xs"
  shows "\<exists>rs. collect f xs acc = Inr (acc @ rs) \<and> list_all2 M xs rs"
  using assms
proof (induction xs arbitrary: acc)
  case Nil
  then show ?case by simp
next
  case (Cons x xs)
  then obtain r where r: "f x = Inr r" "M x r" by auto
  from Cons have "list_all (\<lambda>x. \<exists>r. f x = Inr r \<and> M x r) xs" by simp
  from Cons.IH [OF this, of "acc @ [r]"] obtain rs
    where "collect f xs (acc @ [r]) = Inr ((acc @ [r]) @ rs)" and "list_all2 M xs rs" by blast
  then show ?case using r by (intro exI [of _ "r # rs"]) (simp add: then_do_def)
qed


lemma wf_response_items:
  assumes "wf_response wf_item results"
  shows "then_do (subscript results ''items'') py_iter = Inr (items_of results) \<and>
         list_all wf_item (items_of results)"
  using assms
  by (auto simp: wf_response_def items_of_def field_def then_do_def split: sum.splits pyval.splits)

lemma list_all_weaken: "list_all P xs \<Longrightarrow> (\<And>x. P x \<Longrightarrow> Q x) \<Longrightarrow> list_all Q xs"
  by (induction xs) auto

lemma list_all_conj: "list_all P xs \<Longrightarrow> list_all Q xs \<Longrightarrow> list_all (\<lambda>x. P x \<and> Q x) xs"
  by (induction xs) auto

lemma recently_played_ok:
  assumes "current_user_recently_played sp limit = Inr results"
    and "wf_response wf_play_item results"
    and "list_all (played_at_parses reformat) (items_of results)"
  shows "\<exists>rs. get_recently_played sp reformat limit = (rs, []) \<and>
           list_all2 (\<lambda>item r. track_mapping (field item ''track'') r) (items_of results) rs"
proof -
  from wf_response_items [OF assms(2)]
  have it: "then_do (subscript results ''items'') py_iter = Inr (items_of results)"
    and wf: "list_all wf_play_item (items_of results)" by simp_all
  from wf assms(3)
  have "list_all (\<lambda>x. wf_play_item x \<and> played_at_parses reformat x) (items_of results)"
    by (rule list_all_conj)
  then have "list_all (\<lambda>x. \<exists>r. recent_record reformat x = Inr r \<and>
      track_mapping (field x ''track'') r) (items_of results)"
    by (rule list_all_weaken) (simp add: recent_record_ok)
  from collect_mapping [OF this, of "[]"] obtain rs
    where c: "collect (recent_record reformat) (items_of results) [] = Inr rs"
      and m: "list_all2 (\<lambda>item r. track_mapping (field item ''track'') r) (items_of results) rs"
    by auto
  have "recently_played_body sp reformat limit = Inr rs"
    using recently_played_records [OF assms(1) it] c by simp
  then show ?thesis using m by (simp add: get_recently_played_def)
qed

lemma top_tracks_ok:
  assumes "current_user_top_tracks sp limit time_range = Inr results"
    and "wf_response wf_track results"
  shows "\<exists>rs. get_top_tracks sp limit time_range = (rs, []) \<and>
           list_all2 track_mapping (items_of results) rs"
proof -
  from wf_response_items [OF assms(2)]
  have it: "then_do (subscript results ''items'') py_iter = Inr (items_of results)"
    and wf: "list_all wf_track (items_of results)" by simp_all
  from wf have "list_all (\<lambda>x. \<exists>r. top_track_record time_range x = Inr r \<and> track_mapping x r)
      (items_of results)"
    by (rule list_all_weaken) (rule top_track_record_ok)
  from collect_mapping [OF this, of "[]"] obtain rs
    where c: "collect (top_track_record time_range) (items_of results) [] = Inr rs"
      and m: "list_all2 track_mapping (items_of results) rs"
    by auto
  have "top_tracks_body sp limit time_range = Inr rs"
    using assms(1) it c by (auto simp: top_tracks_body_def then_do_def split: sum.splits)
  then show ?thesis using m by (simp add: get_top_tracks_def)
qed

lemma top_artists_ok:
  assumes "current_user_top_artists sp limit time_range = Inr results"
    and "wf_response wf_artist results"
  shows "\<exists>rs. get_top_artists sp limit time_range = (rs, [Print (Found_top_artists (length rs))]) \<and>
           list_all2 artist_mapping (items_of results) rs"
proof -
  from wf_response_items [OF assms(2)]
  have it: "then_do (subscript results ''items'') py_iter = Inr (items_of results)"
    and wf: "list_all wf_artist (items_of results)" by simp_all
  from wf have "list_all (\<lambda>x. \<exists>r. top_artist_record time_range x = Inr r \<and> artist_mapping x r)
      (items_of results)"
    by (rule list_all_weaken) (rule top_artist_record_ok)
  from collect_mapping [OF this, of "[]"] obtain rs
    where c: "collect (top_artist_record time_range) (items_of results) [] = Inr rs"
      and m: "list_all2 artist_mapping (items_of results) rs"
    by auto
  have "top_artists_body sp limit time_range = Inr rs"
    using assms(1) it c by (auto simp: top_artists_body_def then_do_def split: sum.splits)
  then show ?thesis using m by (simp add: get_top_artists_def)
qed

text \<open>
  C2 (amended).  On a well-formed response with \<open>N\<close> items each fetcher returns
  \<open>N\<close> records, in the order of the items; for \<^verbatim>\<open>get_recently_played\<close> this
  needs, beyond the shape of the response, that every time of play is empty or a
  string \<^verbatim>\<open>strptime\<close> accepts for the format \<^verbatim>\<open>'%Y-%m-%dT%H:%M:%S.%fZ'\<close>, so one
  with fractional seconds.  For \<^verbatim>\<open>get_recently_played\<close> (the track is
  \<^verbatim>\<open>item['track']\<close>) and \<^verbatim>\<open>get_top_tracks\<close> (the track is the item) the record
  has the track's name, comma-joined artist names, album name, duration and
  popularity.  For \<^verbatim>\<open>get_top_artists\<close> the record has the artist's name in the
  artists field, the artist's popularity, the first three genres comma-joined, and
  empty track name, album and duration.
\<close>

theorem fetchers_map_items:
  "(current_user_recently_played sp limit = Inr recent \<and>
    wf_response wf_play_item recent \<and>
    list_all (played_at_parses reformat) (items_of recent) \<longrightarrow>
      snd (get_recently_played sp reformat limit) = [] \<and>
      length (fst (get_recently_played sp reformat limit)) = length (items_of recent) \<and>
      list_all2 (\<lambda>item r. track_mapping (field item ''track'') r)
        (items_of recent) (fst (get_recently_played sp reformat limit))) \<and>
   (current_user_top_tracks sp limit time_range = Inr tracks \<and> wf_response wf_track tracks \<longrightarrow>
      snd (get_top_tracks sp limit time_range) = [] \<and>
      length (fst (get_top_tracks sp limit time_range)) = length (items_of tracks) \<and>
      list_all2 track_mapping (items_of tracks) (fst (get_top_tracks sp limit time_range))) \<and>
   (current_user_top_artists sp limit time_range = Inr artists \<and> wf_response wf_artist artists \<longrightarrow>
      snd (get_top_artists sp limit time_range)
        = [Print (Found_top_artists (length (items_of artists)))] \<and>
      length (fst (get_top_artists sp limit time_range)) = length (items_of artists) \<and>
      list_all2 artist_mapping (items_of artists) (fst (get_top_artists sp limit time_range)))"
proof (intro conjI impI)
  assume a: "current_user_recently_played sp limit = Inr recent \<and>
    wf_response wf_play_item recent \<and>
    list_all (played_at_parses reformat) (items_of recent)"
  then obtain rs where r: "get_recently_played sp reformat limit = (rs, [])"
    and m: "list_all2 (\<lambda>item r. track_mapping (field item ''track'') r) (items_of recent) rs"
    using recently_played_ok by blast
  show "snd (get_recently_played sp reformat limit) = []" by (simp add: r)
  show "length (fst (get_recently_played sp reformat limit)) = length (items_of recent)"
    using m by (simp add: r list_all2_lengthD)
  show "list_all2 (\<lambda>item r. track_mapping (field item ''track'') r)
        (items_of recent) (fst (get_recently_played sp reformat limit))"
    using m by (simp add: r)
next
  assume a: "current_user_top_tracks sp limit time_range = Inr tracks \<and> wf_response wf_track tracks"
  then obtain rs where r: "get_top_tracks sp limit time_range = (rs, [])"
    and m: "list_all2 track_mapping (items_of tracks) rs"
    using top_tracks_ok by blast
  show "snd (get_top_tracks sp limit time_range) = []" by (simp add: r)
  show "length (fst (get_top_tracks sp limit time_range)) = length (items_of tracks)"
    using m by (simp add: r list_all2_lengthD)
  show "list_all2 track_mapping (items_of tracks) (fst (get_top_tracks sp limit time_range))"
    using m by (simp add: r)
next
  assume a: "current_user_top_artists sp limit time_range = Inr artists \<and>
    wf_response wf_artist artists"
  then obtain rs
    where r: "get_top_artists sp limit time_range = (rs, [Print (Found_top_artists (length rs))])"
    and m: "list_all2 artist_mapping (items_of artists) rs"
    using top_artists_ok by blast
  from m have l: "length rs = length (items_of artists)" by (simp add: list_all2_lengthD)
  show "snd (get_top_artists sp limit time_range)
        = [Print (Found_top_artists (length (items_of artists)))]" by (simp add: r l)
  show "length (fst (get_top_artists sp limit time_range)) = length (items_of artists)"
    by (simp add: r l)
  show "list_all2 artist_mapping (items_of artists) (fst (get_top_artists sp limit time_range))"
    using m by (simp add: r)
qed

lemma sample_responses_wf:
  "wf_response wf_play_item (PDict [(''items'', PList [sample_play, bare_play])])"
  "wf_response wf_track (PDict [(''items'', PList [sample_track])])"
  "wf_response wf_artist (PDict [(''items'', PList [sample_artist])])"
  "list_all (played_at_parses sample_reformat) [sample_play, bare_play]"
  by (simp_all add: wf_response_def wf_play_item_def wf_track_def wf_artist_def has_key_def
        field_def sample_play_def bare_play_def sample_track_def sample_artist_def
        played_at_parses_def sample_reformat_def)

theorem fetchers_map_items_witness:
  "current_user_recently_played sample_sp 50
     = Inr (PDict [(''items'', PList [sample_play, bare_play])]) \<and>
   wf_response wf_play_item (PDict [(''items'', PList [sample_play, bare_play])]) \<and>
   list_all (played_at_parses sample_reformat) [sample_play, bare_play] \<and>
   length (fst (get_recently_played sample_sp sample_reformat 50)) = 2 \<and>
   current_user_top_tracks sample_sp 50 ''short_term''
     = Inr (PDict [(''items'', PList [sample_track])]) \<and>
   wf_response wf_track (PDict [(''items'', PList [sample_track])]) \<and>
   length (fst (get_top_tracks sample_sp 50 ''short_term'')) = 1 \<and>
   track_mapping sample_track (hd (fst (get_top_tracks sample_sp 50 ''short_term''))) \<and>
   current_user_top_artists sample_sp 50 ''short_term''
     = Inr (PDict [(''items'', PList [sample_artist])]) \<and>
   wf_response wf_artist (PDict [(''items'', PList [sample_artist])]) \<and>
   length (fst (get_top_artists sample_sp 50 ''short_term'')) = 1 \<and>
   artist_mapping sample_artist (hd (fst (get_top_artists sample_sp 50 ''short_term'')))"
proof -
  have a: "current_user_recently_played sample_sp 50
     = Inr (PDict [(''items'', PList [sample_play, bare_play])])"
    "current_user_top_tracks sample_sp 50 ''short_term''
     = Inr (PDict [(''items'', PList [sample_track])])"
    "current_user_top_artists sample_sp 50 ''short_term''
     = Inr (PDict [(''items'', PList [sample_artist])])"
    by (simp_all add: sample_sp_def)
  have i: "items_of (PDict [(''items'', PList [sample_play, bare_play])]) = [sample_play, bare_play]"
    "items_of (PDict [(''items'', PList [sample_track])]) = [sample_track]"
    "items_of (PDict [(''items'', PList [sample_artist])]) = [sample_artist]"
    by (simp_all add: items_of_def field_def)
  have hd2: "\<And>P x ys. list_all2 P [x] ys \<Longrightarrow> P x (hd ys)"
    by (auto simp: list_all2_Cons1)
  from fetchers_map_items [of sample_sp 50 "PDict [(''items'', PList [sample_play, bare_play])]"
      sample_reformat "''short_term''" "PDict [(''items'', PList [sample_track])]"
      "PDict [(''items'', PList [sample_artist])]"]
  show ?thesis
    using a sample_responses_wf i by (auto dest: hd2)
qed

text \<open>
  The mapping of tracks does not describe \<^verbatim>\<open>get_top_artists\<close>: the record of the
  sample artist has an empty track name, not the name of the item.  And a response
  of the right shape need not give a record per item: of two plays, the second
  with a time without fractional seconds (which \<^verbatim>\<open>strptime\<close> refuses for the format
  of the program, as the stand-in does), \<^verbatim>\<open>get_recently_played\<close> returns no record.
\<close>

theorem top_artist_record_is_no_track_mapping:
  "fst (get_top_artists sample_sp 20 ''medium_term'') = [sample_artist_record] \<and>
   field sample_artist ''name'' = PStr ''Band'' \<and>
   map_of sample_artist_record ''track_name'' = Some (PStr []) \<and>
   \<not> track_mapping sample_artist sample_artist_record \<and>
   current_user_recently_played plain_sp 50
     = Inr (PDict [(''items'', PList [sample_play, plain_play])]) \<and>
   wf_response wf_play_item (PDict [(''items'', PList [sample_play, plain_play])]) \<and>
   length (items_of (PDict [(''items'', PList [sample_play, plain_play])])) = 2 \<and>
   sample_reformat ''2024-01-01T10:00:00Z'' = Inl ValueError \<and>
   get_recently_played plain_sp sample_reformat 50
     = ([], [Print (Error_fetching_recently_played ValueError)])"
  by (simp add: get_top_artists_def top_artists_body_def sample_sp_def then_do_def
        top_artist_record_def sample_artist_def sample_artist_record_def comma_join_def
        track_mapping_def field_def plain_sp_def plain_play_def sample_play_def
        sample_track_def wf_response_def wf_play_item_def wf_track_def has_key_def
        items_of_def sample_reformat_def get_recently_played_def recently_played_body_def
        recent_record_def artist_names_def format_played_at_def context_of_def)

section \<open>Token refresh\<close>

lemma refresh_calls_append: "refresh_calls (xs @ ys) = refresh_calls xs @ refresh_calls ys"
  by (induction xs rule: refresh_calls.induct) auto

lemma token_writes_append: "token_writes (xs @ ys) = token_writes xs @ token_writes ys"
  by (induction xs rule: token_writes.induct) auto

lemma fresh_auth_quiet:
  "refresh_calls (snd (snd (fresh_auth api w))) = [] \<and>
   token_writes (snd (snd (fresh_auth api w))) = []"
  by (auto simp: fresh_auth_def Let_def split: prod.splits sum.splits)

lemma client_of_token_quiet:
  "refresh_calls (snd (snd (client_of_token t w tr))) = refresh_calls tr \<and>
   token_writes (snd (snd (client_of_token t w tr))) = token_writes tr"
  by (auto simp: client_of_token_def refresh_calls_append token_writes_append split: sum.splits)

lemma authenticate_calls:
  assumes "token_file_exists api w"
  shows "refresh_calls (snd (snd (authenticate_spotify api w)))
           = refresh_calls (snd (snd (saved_token_auth api w))) \<and>
         token_writes (snd (snd (authenticate_spotify api w)))
           = token_writes (snd (snd (saved_token_auth api w)))"
proof (cases "saved_token_auth api w")
  case (fields r w1 tr)
  show ?thesis
  proof (cases r)
    case (Inr sp)
    then show ?thesis using assms fields
      by (simp add: authenticate_spotify_def)
  next
    case (Inl e)
    obtain r2 w2 tr2 where f: "fresh_auth api (remove_token api w1) = (r2, w2, tr2)"
      by (cases "fresh_auth api (remove_token api w1)")
    from fresh_auth_quiet [of api "remove_token api w1"] f
    have "refresh_calls tr2 = []" "token_writes tr2 = []" by simp_all
    then show ?thesis using assms fields Inl f
      by (simp add: authenticate_spotify_def refresh_calls_append token_writes_append)
  qed
qed

lemma saved_token_calls:
  assumes "load_token api w = Inr token_info"
  shows "refresh_calls (snd (snd (saved_token_auth api w))) =
           (if is_token_expired api w token_info = Inr True
            then (case subscript token_info ''refresh_token'' of
                    Inr rt \<Rightarrow> [rt]
                  | Inl e \<Rightarrow> [])
            else [])"
    and "token_writes (snd (snd (saved_token_auth api w))) =
           (if is_token_expired api w token_info = Inr True
            then (case subscript token_info ''refresh_token'' of
                    Inr rt \<Rightarrow>
                      (case fst (refresh_access_token api w rt) of
                         Inr new_info \<Rightarrow> [new_info]
                       | Inl e \<Rightarrow> [])
                  | Inl e \<Rightarrow> [])
            else [])"
  using assms
  by (auto simp: saved_token_auth_def client_of_token_quiet split: sum.splits prod.splits option.splits)

text \<open>
  C5 (amended).  With a token file that exists and loads,
  \<^verbatim>\<open>refresh_access_token\<close> is called exactly when \<^verbatim>\<open>is_token_expired\<close> returns
  true and the cached token has a \<^verbatim>\<open>refresh_token\<close> entry, once and with that
  entry; the token file is rewritten exactly when that call returns a token, with
  the token it returned.
\<close>

theorem refresh_iff_expired_and_refreshable:
  assumes "token_file_exists api w" and "load_token api w = Inr token_info"
  shows "(refresh_calls (snd (snd (authenticate_spotify api w))) \<noteq> [] \<longleftrightarrow>
            is_token_expired api w token_info = Inr True \<and> has_key token_info ''refresh_token'') \<and>
         refresh_calls (snd (snd (authenticate_spotify api w))) =
           (if is_token_expired api w token_info = Inr True
            then (case subscript token_info ''refresh_token'' of
                    Inr rt \<Rightarrow> [rt]
                  | Inl e \<Rightarrow> [])
            else []) \<and>
         token_writes (snd (snd (authenticate_spotify api w))) =
           (if is_token_expired api w token_info = Inr True
            then (case subscript token_info ''refresh_token'' of
                    Inr rt \<Rightarrow>
                      (case fst (refresh_access_token api w rt) of
                         Inr new_info \<Rightarrow> [new_info]
                       | Inl e \<Rightarrow> [])
                  | Inl e \<Rightarrow> [])
            else [])"
  using authenticate_calls [OF assms(1)] saved_token_calls [OF assms(2)]
  by (auto simp: has_key_def split: sum.splits)

text \<open>
  Three runs on the simulated token store: an expired token with a refresh token,
  a good token, and an expired token without a refresh token.
\<close>

lemma sim_runs:
  "authenticate_spotify sim_auth (token_store expired_token) =
     (Some (Client_with_token (PStr ''fresh'')),
      \<lparr>token_file = Some (PDict [(''access_token'', PStr ''fresh''), (''refresh_token'', PStr ''r1''),
                                 (''expires_at'', PInt 4600)]),
       auth_time = 1000\<rparr>,
      [Print Starting_authentication, Print Found_existing_token_file,
       Print Token_expired_refreshing, Refresh_access_token (PStr ''r1''),
       Write_token_file (PDict [(''access_token'', PStr ''fresh''), (''refresh_token'', PStr ''r1''),
                                (''expires_at'', PInt 4600)]),
       Print Authenticated_with_saved_token])"
  "authenticate_spotify sim_auth (token_store good_token) =
     (Some (Client_with_token (PStr ''old'')), token_store good_token,
      [Print Starting_authentication, Print Found_existing_token_file,
       Print Authenticated_with_saved_token])"
  "authenticate_spotify sim_auth (token_store stale_token) =
     (Some Client_with_auth_manager, \<lparr>token_file = None, auth_time = 1000\<rparr>,
      [Print Starting_authentication, Print Found_existing_token_file,
       Print Token_expired_refreshing,
       Print (Error_with_saved_token (KeyError ''refresh_token'')),
       Print Starting_fresh_authentication, Remove_token_file,
       Print Opening_browser, Print If_browser_does_not_open,
       Print (Successfully_authenticated_as (PStr ''user'')),
       Print (Email (PStr ''user@example.org''))])"
  by (simp_all add: authenticate_spotify_def saved_token_auth_def client_of_token_def
        fresh_auth_def sim_auth_def sim_is_token_expired_def token_store_def expired_token_def
        good_token_def stale_token_def Let_def)

theorem refresh_iff_expired_and_refreshable_witness:
  "token_file_exists sim_auth (token_store expired_token) \<and>
   load_token sim_auth (token_store expired_token) = Inr expired_token \<and>
   is_token_expired sim_auth (token_store expired_token) expired_token = Inr True \<and>
   refresh_calls (snd (snd (authenticate_spotify sim_auth (token_store expired_token))))
     = [PStr ''r1''] \<and>
   token_writes (snd (snd (authenticate_spotify sim_auth (token_store expired_token))))
     = [PDict [(''access_token'', PStr ''fresh''), (''refresh_token'', PStr ''r1''),
               (''expires_at'', PInt 4600)]]"
proof -
  have a: "token_file_exists sim_auth (token_store expired_token)"
    by (simp add: sim_auth_def token_store_def)
  have b: "load_token sim_auth (token_store expired_token) = Inr expired_token"
    by (simp add: sim_auth_def token_store_def)
  have c: "is_token_expired sim_auth (token_store expired_token) expired_token = Inr True"
    by (simp add: sim_auth_def sim_is_token_expired_def token_store_def expired_token_def)
  have d: "subscript expired_token ''refresh_token'' = Inr (PStr ''r1'')"
    by (simp add: expired_token_def)
  have e: "fst (refresh_access_token sim_auth (token_store expired_token) (PStr ''r1''))
     = Inr (PDict [(''access_token'', PStr ''fresh''), (''refresh_token'', PStr ''r1''),
               (''expires_at'', PInt 4600)])"
    by (simp add: sim_auth_def token_store_def)
  show ?thesis
    using a b c refresh_iff_expired_and_refreshable [OF a b]
    by (simp add: d e)
qed

text \<open>
  An expired token without a refresh token: \<^verbatim>\<open>is_token_expired\<close> returns true,
  the subscript \<^verbatim>\<open>token_info['refresh_token']\<close> raises, and no refresh is requested.
\<close>

theorem expired_token_not_refreshed:
  "token_file_exists sim_auth (token_store stale_token) \<and>
   load_token sim_auth (token_store stale_token) = Inr stale_token \<and>
   is_token_expired sim_auth (token_store stale_token) stale_token = Inr True \<and>
   refresh_calls (snd (snd (authenticate_spotify sim_auth (token_store stale_token)))) = [] \<and>
   \<not> (refresh_calls (snd (snd (authenticate_spotify sim_auth (token_store stale_token)))) \<noteq> []
        \<longleftrightarrow> is_token_expired sim_auth (token_store stale_token) stale_token = Inr True)"
  by (simp add: sim_runs)
     (simp add: sim_auth_def sim_is_token_expired_def token_store_def stale_token_def)

end
